theory Spec2Isabelle
  imports Complex_Main "HOL-Library.Char_ord" "HOL-Library.List_Lexorder" "HOL-Library.Multiset"
begin

section \<open>Input values and Python built-ins\<close>

text \<open>
  Both scripts read \<^verbatim>\<open>input.json\<close> with \<^verbatim>\<open>json.load\<close> and work on a list of
  dictionaries.  A field value is \<^verbatim>\<open>null\<close>, a boolean, an integer (unbounded, as in
  Python) or a string.  Numbers with a fraction or an exponent (Python floats), arrays and
  nested objects as field values are outside the model, and so is the range of the
  floats the scripts compute with: arithmetic is exact, where Python raises
  \<^verbatim>\<open>OverflowError\<close> for an integer beyond the floats.  Strings are byte strings
  (UTF-8), whose lexicographic order is the code-point order Python uses to compare
  \<^verbatim>\<open>str\<close>.
\<close>

datatype jval = JNull | JBool bool | JInt int | JStr string

text \<open>
  One input record, a JSON object.  \<open>None\<close> is an absent key.  The grouping key
  \<^verbatim>\<open>Type\<close> is a string when present (the data model of the specification).
  \<open>Labels\<close> holds the other keys of the object, among them the six display fields
  \<^verbatim>\<open>Tag\<close> ... \<^verbatim>\<open>Bounds\<close>.
\<close>

record json_record =
  Type :: "string option"
  Reference :: "jval option"
  Address :: "jval option"
  Labels :: "string \<Rightarrow> jval option"

datatype pyerr = ValueError | TypeError | KeyError string

text \<open>
  Python's built-in \<^verbatim>\<open>int\<close> on a string is not code of the scripts.  It is the
  parameter \<open>int_str\<close> of everything that calls it: \<open>int_str s\<close> is the integer that
  \<^verbatim>\<open>int(s)\<close> returns, and \<open>None\<close> when it raises \<^verbatim>\<open>ValueError\<close>, the only exception
  it raises on a string.  Which strings it accepts (Unicode digits and blanks, the limit
  on the number of digits) is left to it.

  \<^verbatim>\<open>int(value)\<close> on a field value: an integer is itself, a boolean is 0 or 1, a string
  goes to \<open>int_str\<close>, and \<^verbatim>\<open>None\<close> raises \<^verbatim>\<open>TypeError\<close>.
\<close>

fun py_int :: "(string \<Rightarrow> int option) \<Rightarrow> jval \<Rightarrow> pyerr + int" where
  "py_int int_str JNull = Inl TypeError"
| "py_int int_str (JBool b) = Inr (if b then 1 else 0)"
| "py_int int_str (JInt i) = Inr i"
| "py_int int_str (JStr s) = (case int_str s of None \<Rightarrow> Inl ValueError | Some i \<Rightarrow> Inr i)"

text \<open>
  The examples use \<open>decimal\<close> for \<open>int_str\<close>.  It reads the plain decimal
  literals: blanks around the literal are dropped, one sign is allowed, and single
  underscores may separate digits.  On these \<^verbatim>\<open>int\<close> returns the same integer, as long
  as the literal has no more than 4300 digits, its limit; the examples use \<open>decimal\<close>
  on short literals and on the words \<^verbatim>\<open>x\<close> and \<^verbatim>\<open>None\<close>, which both reject.
\<close>

definition is_space :: "char \<Rightarrow> bool" where
  "is_space c = (c \<in> set [CHR '' '', CHR 0x09, CHR 0x0A, CHR 0x0B, CHR 0x0C, CHR 0x0D])"

definition strip :: "string \<Rightarrow> string" where
  "strip s = rev (dropWhile is_space (rev (dropWhile is_space s)))"

definition digit_val :: "char \<Rightarrow> nat option" where
  "digit_val c =
     (let n = (of_char c :: nat) in if 48 \<le> n \<and> n \<le> 57 then Some (n - 48) else None)"

fun digits_val :: "nat \<Rightarrow> bool \<Rightarrow> string \<Rightarrow> nat option" where
  "digits_val acc prev [] = (if prev then Some acc else None)"
| "digits_val acc prev (c # cs) =
     (if c = CHR ''_'' then (if prev then digits_val acc False cs else None)
      else (case digit_val c of
              None \<Rightarrow> None
            | Some d \<Rightarrow> digits_val (10 * acc + d) True cs))"

definition decimal :: "string \<Rightarrow> int option" where
  "decimal s =
     (let t = strip s
      in case t of
           c # cs \<Rightarrow>
             (if c = CHR ''-'' then map_option (\<lambda>n. - int n) (digits_val 0 False cs)
              else if c = CHR ''+'' then map_option int (digits_val 0 False cs)
              else map_option int (digits_val 0 False t))
         | [] \<Rightarrow> None)"

text \<open>
  \<^verbatim>\<open>sorted(xs, key=k, reverse=True)\<close>: descending by key and stable (records with
  equal keys keep their input order), which is what reversing, sorting stably in ascending
  order and reversing again computes.
\<close>

definition sorted_reverse :: "('a \<Rightarrow> 'k::linorder) \<Rightarrow> 'a list \<Rightarrow> 'a list" where
  "sorted_reverse k xs = rev (sort_key k (rev xs))"

text \<open>
  A dictionary whose iteration order matters is an association list in insertion order.
  \<^verbatim>\<open>d.setdefault(k, []).append(v)\<close>:
\<close>

fun setdefault_append :: "'k \<Rightarrow> 'v \<Rightarrow> ('k \<times> 'v list) list \<Rightarrow> ('k \<times> 'v list) list" where
  "setdefault_append k v [] = [(k, [v])]"
| "setdefault_append k v ((k', vs) # d) =
     (if k = k' then (k', vs @ [v]) # d else (k', vs) # setdefault_append k v d)"

section \<open>Layout rules shared by the two scripts\<close>

text \<open>
  \<^verbatim>\<open>calc_height\<close> (CapabilityClassVis.py) and \<^verbatim>\<open>calculate_figure_height\<close>
  (CapabilityVisualization.py) are the same function with the same defaults.  The
  factors 1.5 and 0.6 are taken as the exact rationals 3/2 and 3/5.
\<close>

definition calc_height :: "int \<Rightarrow> int \<Rightarrow> nat \<Rightarrow> rat \<Rightarrow> rat \<Rightarrow> rat \<Rightarrow> rat" where
  "calc_height min_r max_r cnt base per_cap factor =
     max (max base (of_int (max_r - min_r) * factor)) (of_nat cnt * per_cap)"

definition base_height :: rat where "base_height = 6"
definition per_cap_height :: rat where "per_cap_height = 3 / 5"
definition range_factor :: rat where "range_factor = 3 / 2"

definition calculate_figure_height :: "int \<Rightarrow> int \<Rightarrow> nat \<Rightarrow> rat" where
  "calculate_figure_height min_r max_r num_caps =
     (let ref_range = max_r - min_r;
          range_based = of_int ref_range * range_factor;
          num_based = of_nat num_caps * per_cap_height
      in max (max base_height range_based) num_based)"

definition MAX_SUBPLOT_HEIGHT :: rat where "MAX_SUBPLOT_HEIGHT = 10"

text \<open>The grid of sub-plots, \<open>(nrows, ncols)\<close>, chosen from the number of types.\<close>

definition grid_layout :: "nat \<Rightarrow> nat \<times> nat" where
  "grid_layout n_types =
     (if n_types = 1 then (1, 1)
      else if n_types = 2 then (1, 2)
      else if n_types = 3 then (1, 3)
      else if n_types = 4 then (2, 2)
      else if n_types \<in> {5, 6} then (2, 3)
      else (1, n_types))"

text \<open>
  Empty memory blocks of a panel: \<^verbatim>\<open>sorted(set(range(min, max + 1)) - occupied)\<close>.
\<close>

definition empty_addresses :: "int \<Rightarrow> int \<Rightarrow> int set \<Rightarrow> int list" where
  "empty_addresses min_r max_r occupied = sorted_list_of_set ({min_r .. max_r} - occupied)"

text \<open>
  What the arrow loop keeps of a panel: its reference range and the horizontal centre of
  its axes in figure coordinates.  The dictionary \<^verbatim>\<open>type_axes_info\<close> is filled in the
  order of \<^verbatim>\<open>types\<close>, so scanning \<^verbatim>\<open>types\<close> and looking each type up scans the entries
  of the association list in order.
\<close>

record axes_info =
  ai_min :: int
  ai_max :: int
  center_x :: rat

definition covers :: "int \<Rightarrow> string \<times> axes_info \<Rightarrow> bool" where
  "covers addr_val e = (ai_min (snd e) \<le> addr_val \<and> addr_val \<le> ai_max (snd e))"

text \<open>
  The target type of an address: the first \<open>t\<close> of \<^verbatim>\<open>types\<close> with
  \<^verbatim>\<open>min <= addr_val <= max\<close>, or \<open>None\<close>
  (\<^verbatim>\<open>next((t for t in types if ...), None)\<close> in one script, the \<^verbatim>\<open>for ... break\<close>
  loop in the other).
\<close>

definition resolve_target :: "(string \<times> axes_info) list \<Rightarrow> int \<Rightarrow> string option" where
  "resolve_target tai addr_val = map_option fst (find (covers addr_val) tai)"

text \<open>
  Connection styles as the scripts name them: \<^verbatim>\<open>"arc3, rad=r"\<close>, plain \<^verbatim>\<open>"arc3"\<close>,
  and no \<^verbatim>\<open>connectionstyle\<close> argument at all.  In matplotlib \<^verbatim>\<open>arc3\<close> has
  \<^verbatim>\<open>rad=0\<close> by default (a straight line) and is the default style of a patch.
\<close>

datatype connectionstyle = Arc3_rad rat | Arc3 | Style_default


text \<open>
  An arrow before the transform to figure coordinates: the panels of its two ends, the
  two points in the data coordinates of those panels, and the style.
\<close>

record arrow =
  src_type :: string
  tgt_type :: string
  src_pt :: "rat \<times> rat"
  tgt_pt :: "rat \<times> rat"
  style :: connectionstyle

text \<open>The x-limits every drawn row sets on its axes, as the arrow loops restate them.\<close>

definition x_min :: rat where "x_min = -1"
definition x_max :: rat where "x_max = 65"





section \<open>CapabilityClassVis.py\<close>

record capability =
  address :: jval
  reference :: "int option"
  type :: string

text \<open>\<^verbatim>\<open>Capability._to_int\<close>: \<^verbatim>\<open>int(value)\<close>, with \<^verbatim>\<open>ValueError\<close> and \<^verbatim>\<open>TypeError\<close> caught.\<close>

definition to_int :: "(string \<Rightarrow> int option) \<Rightarrow> jval \<Rightarrow> pyerr + int option" where
  "to_int int_str v =
     (case py_int int_str v of
        Inr i \<Rightarrow> Inr (Some i)
      | Inl ValueError \<Rightarrow> Inr None
      | Inl TypeError \<Rightarrow> Inr None
      | Inl (KeyError k) \<Rightarrow> Inl (KeyError k))"

text \<open>
  \<^verbatim>\<open>Capability.__init__\<close>: \<^verbatim>\<open>data.get("Address", "")\<close>,
  \<^verbatim>\<open>self._to_int(data.get("Reference"))\<close>, \<^verbatim>\<open>data.get("Type", "")\<close>.
\<close>

definition Capability :: "(string \<Rightarrow> int option) \<Rightarrow> json_record \<Rightarrow> pyerr + capability" where
  "Capability int_str data =
     (case to_int int_str (case Reference data of None \<Rightarrow> JNull | Some v \<Rightarrow> v) of
        Inl e \<Rightarrow> Inl e
      | Inr r \<Rightarrow>
          Inr \<lparr> address = (case Address data of None \<Rightarrow> JStr [] | Some v \<Rightarrow> v),
                reference = r,
                type = (case Type data of None \<Rightarrow> [] | Some t \<Rightarrow> t) \<rparr>)"

definition getAddress :: "(string \<Rightarrow> int option) \<Rightarrow> capability \<Rightarrow> pyerr + int option" where
  "getAddress int_str cap = to_int int_str (address cap)"

text \<open>\<^verbatim>\<open>capabilities = [Capability(item) for item in data]\<close>; the first exception ends it.\<close>

fun capabilities :: "(string \<Rightarrow> int option) \<Rightarrow> json_record list \<Rightarrow> pyerr + capability list" where
  "capabilities int_str [] = Inr []"
| "capabilities int_str (item # data) =
     (case Capability int_str item of
        Inl e \<Rightarrow> Inl e
      | Inr c \<Rightarrow> (case capabilities int_str data of Inl e \<Rightarrow> Inl e | Inr cs \<Rightarrow> Inr (c # cs)))"

text \<open>Grouping by type, in order of first appearance, and the per-group sort.\<close>

definition cv_group :: "capability list \<Rightarrow> (string \<times> capability list) list" where
  "cv_group caps = foldl (\<lambda>d cap. setdefault_append (type cap) cap d) [] caps"

definition ref_key :: "capability \<Rightarrow> int" where
  "ref_key c = (case reference c of Some r \<Rightarrow> r | None \<Rightarrow> -1)"

definition cv_type_caps :: "capability list \<Rightarrow> (string \<times> capability list) list" where
  "cv_type_caps caps = map (\<lambda>(typ, cs). (typ, sorted_reverse ref_key cs)) (cv_group caps)"

definition cv_types :: "capability list \<Rightarrow> string list" where
  "cv_types caps = sort (map fst (cv_type_caps caps))"

text \<open>\<^verbatim>\<open>min(refs)\<close> and \<^verbatim>\<open>max(refs)\<close> of a non-empty list.\<close>

fun py_min :: "int list \<Rightarrow> int" where
  "py_min [] = 0"
| "py_min (x # xs) = fold min xs x"

fun py_max :: "int list \<Rightarrow> int" where
  "py_max [] = 0"
| "py_max (x # xs) = fold max xs x"

definition get_ref_range :: "capability list \<Rightarrow> int \<times> int" where
  "get_ref_range caps =
     (let refs = List.map_filter reference caps
      in (if refs \<noteq> [] then py_min refs else 0, if refs \<noteq> [] then py_max refs else 1))"

record cv_info =
  min_ref :: int
  max_ref :: int
  height :: rat
  caps :: "capability list"
  y_positions :: "(int \<times> int) list"

text \<open>
  One entry of \<^verbatim>\<open>type_info\<close>.  \<^verbatim>\<open>y_positions\<close> maps every present reference to
  itself; it is only read through \<^verbatim>\<open>.get\<close> and \<^verbatim>\<open>set(.values())\<close>, so the order of its
  entries is immaterial.
\<close>

definition cv_info_of :: "capability list \<Rightarrow> cv_info" where
  "cv_info_of cs =
     (let (mn, mx) = get_ref_range cs;
          h = min (calc_height mn mx (length cs) 6 (3 / 5) (3 / 2)) MAX_SUBPLOT_HEIGHT
      in \<lparr> min_ref = mn, max_ref = mx, height = h, caps = cs,
           y_positions = map (\<lambda>r. (r, r)) (List.map_filter reference cs) \<rparr>)"

text \<open>
  \<^verbatim>\<open>type_info\<close>, filled for \<^verbatim>\<open>typ in types\<close>.  Every \<open>typ\<close> of \<^verbatim>\<open>types\<close> is a key of
  \<^verbatim>\<open>type_caps\<close>, so the lookup \<^verbatim>\<open>type_caps[typ]\<close> never fails.
\<close>

definition lookup_caps :: "(string \<times> 'c list) list \<Rightarrow> string \<Rightarrow> 'c list" where
  "lookup_caps d typ = (case map_of d typ of Some cs \<Rightarrow> cs | None \<Rightarrow> [])"

definition cv_type_info :: "capability list \<Rightarrow> (string \<times> cv_info) list" where
  "cv_type_info cps =
     map (\<lambda>typ. (typ, cv_info_of (lookup_caps (cv_type_caps cps) typ))) (cv_types cps)"

definition cv_max_height :: "capability list \<Rightarrow> rat" where
  "cv_max_height cps = foldl (\<lambda>m (typ, info). max m (height info)) 0 (cv_type_info cps)"

definition cv_grid :: "capability list \<Rightarrow> nat \<times> nat" where
  "cv_grid cps = grid_layout (length (cv_types cps))"

text \<open>\<^verbatim>\<open>type_axes\<close>: the \<open>i\<close>-th type gets the \<open>i\<close>-th axes of the flattened grid.\<close>

definition cv_type_axes :: "capability list \<Rightarrow> (string \<times> nat) list" where
  "cv_type_axes cps = zip (cv_types cps) [0 ..< length (cv_types cps)]"

text \<open>
  The drawing loop of one panel: the rows drawn (their y-coordinates, in drawing order;
  a capability without reference is skipped) and the empty memory blocks.
\<close>

definition dict_get :: "(int \<times> int) list \<Rightarrow> int \<Rightarrow> int \<Rightarrow> int" where
  "dict_get d k dflt = (case map_of d k of Some v \<Rightarrow> v | None \<Rightarrow> dflt)"

definition cv_drawn_rows :: "cv_info \<Rightarrow> (capability \<times> int) list" where
  "cv_drawn_rows info =
     List.map_filter
       (\<lambda>cap. case reference cap of
                 None \<Rightarrow> None
               | Some r \<Rightarrow> Some (cap, dict_get (y_positions info) r r))
       (caps info)"

definition cv_empty :: "cv_info \<Rightarrow> int list" where
  "cv_empty info =
     empty_addresses (min_ref info) (max_ref info) (set (map snd (y_positions info)))"

text \<open>
  \<^verbatim>\<open>type_axes_info\<close>.  The position of the \<open>i\<close>-th axes, \<open>(x0, x1)\<close>, is what matplotlib
  reports (\<^verbatim>\<open>ax.get_position()\<close>); it is a parameter.
\<close>

definition cv_type_axes_info ::
  "(nat \<Rightarrow> rat \<times> rat) \<Rightarrow> capability list \<Rightarrow> (string \<times> axes_info) list" where
  "cv_type_axes_info pos cps =
     map (\<lambda>((typ, info), i).
            (typ, \<lparr> ai_min = min_ref info, ai_max = max_ref info,
                     center_x = (fst (pos i) + snd (pos i)) / 2 \<rparr>))
         (zip (cv_type_info cps) [0 ..< length (cv_type_info cps)])"

text \<open>
  One turn of the arrow loop for capability \<open>cap\<close> of panel \<open>typ\<close>.  \<open>u\<close> is what
  \<^verbatim>\<open>random.uniform(0.1, 0.6)\<close> returns if this turn reaches it.  The result is \<open>None\<close>
  when the turn ends in \<^verbatim>\<open>continue\<close>.  \<^verbatim>\<open>if not target_type\<close> is Python's truth test:
  it holds for \<^verbatim>\<open>None\<close> and for the empty string.
\<close>

definition mk_arrow ::
  "string \<Rightarrow> string \<Rightarrow> rat \<Rightarrow> rat \<Rightarrow> rat \<Rightarrow> rat \<Rightarrow> connectionstyle \<Rightarrow> arrow" where
  "mk_arrow typ target_type src_x src_y tgt_x tgt_y st =
     \<lparr> src_type = typ, tgt_type = target_type, src_pt = (src_x, src_y + 1 / 2),
       tgt_pt = (tgt_x, tgt_y), style = st \<rparr>"

definition cv_arrow ::
  "(string \<Rightarrow> int option) \<Rightarrow> (string \<times> axes_info) list \<Rightarrow> (string \<times> cv_info) list \<Rightarrow> string \<Rightarrow> capability \<Rightarrow> rat
     \<Rightarrow> pyerr + arrow option" where
  "cv_arrow int_str tai ti typ cap u =
     (case reference cap of
        None \<Rightarrow> Inr None
      | Some r \<Rightarrow>
          (case map_of ti typ of
             None \<Rightarrow> Inl (KeyError typ)
           | Some info \<Rightarrow>
               (let src_y = dict_get (y_positions info) r r in
                case getAddress int_str cap of
                  Inl e \<Rightarrow> Inl e
                | Inr None \<Rightarrow> Inr None
                | Inr (Some addr_val) \<Rightarrow>
                    (case resolve_target tai addr_val of
                       None \<Rightarrow> Inr None
                     | Some target_type \<Rightarrow>
                         if target_type = [] then Inr None
                         else
                           (let tgt_y = of_int addr_val + u in
                            if typ = target_type then
                              (if addr_val < r
                               then Inr (Some (mk_arrow typ target_type (-2) (of_int src_y) (-2) tgt_y
                                                (Arc3_rad (3 / 10))))
                               else Inr (Some (mk_arrow typ target_type (x_max + 1) (of_int src_y)
                                                (x_max + 1) tgt_y (Arc3_rad (- (3 / 10))))))
                            else
                              (case (map_of tai typ, map_of tai target_type) of
                                 (Some s, Some t) \<Rightarrow>
                                   (let src_center = center_x s; tgt_center = center_x t in
                                    if src_center < tgt_center
                                    then Inr (Some (mk_arrow typ target_type x_max (of_int src_y)
                                                     x_min tgt_y Arc3))
                                    else Inr (Some (mk_arrow typ target_type x_min (of_int src_y)
                                                     x_max tgt_y Arc3)))
                               | (None, _) \<Rightarrow> Inl (KeyError typ)
                               | (_, None) \<Rightarrow> Inl (KeyError target_type)))))))"

text \<open>
  The loop over the capabilities of one panel and over the panels.  \<open>rnd k\<close> is the value
  of the \<open>k\<close>-th call of \<^verbatim>\<open>random.uniform\<close> in the run; the counter is the state of the
  generator, advanced by every turn that draws a number.
\<close>

fun cv_arrows_caps ::
  "(string \<Rightarrow> int option) \<Rightarrow> (string \<times> axes_info) list \<Rightarrow> (string \<times> cv_info) list \<Rightarrow> string \<Rightarrow> capability list
     \<Rightarrow> (nat \<Rightarrow> rat) \<Rightarrow> nat \<Rightarrow> pyerr + (arrow list \<times> nat)" where
  "cv_arrows_caps int_str tai ti typ [] rnd k = Inr ([], k)"
| "cv_arrows_caps int_str tai ti typ (cap # cs) rnd k =
     (case cv_arrow int_str tai ti typ cap (rnd k) of
        Inl e \<Rightarrow> Inl e
      | Inr None \<Rightarrow> cv_arrows_caps int_str tai ti typ cs rnd k
      | Inr (Some a) \<Rightarrow>
          (case cv_arrows_caps int_str tai ti typ cs rnd (Suc k) of
             Inl e \<Rightarrow> Inl e
           | Inr (as, k') \<Rightarrow> Inr (a # as, k')))"

fun cv_arrows_types ::
  "(string \<Rightarrow> int option) \<Rightarrow> (string \<times> axes_info) list \<Rightarrow> (string \<times> cv_info) list \<Rightarrow> string list
     \<Rightarrow> (nat \<Rightarrow> rat) \<Rightarrow> nat \<Rightarrow> pyerr + (arrow list \<times> nat)" where
  "cv_arrows_types int_str tai ti [] rnd k = Inr ([], k)"
| "cv_arrows_types int_str tai ti (typ # ts) rnd k =
     (case map_of ti typ of
        None \<Rightarrow> Inl (KeyError typ)
      | Some info \<Rightarrow>
          (case cv_arrows_caps int_str tai ti typ (caps info) rnd k of
             Inl e \<Rightarrow> Inl e
           | Inr (as, k') \<Rightarrow>
               (case cv_arrows_types int_str tai ti ts rnd k' of
                  Inl e \<Rightarrow> Inl e
                | Inr (bs, k'') \<Rightarrow> Inr (as @ bs, k''))))"

text \<open>
  The whole script after \<^verbatim>\<open>json.load\<close>: what is laid out, drawn and connected.
  Without a record there is no type, the grid is \<open>(1, 0)\<close>, and
  \<^verbatim>\<open>plt.subplots(1, 0)\<close> raises \<^verbatim>\<open>ValueError\<close>.
\<close>

record cv_figure =
  fig_types :: "string list"
  fig_grid :: "nat \<times> nat"
  fig_axes :: "(string \<times> nat) list"
  fig_info :: "(string \<times> cv_info) list"
  fig_rows :: "(string \<times> (capability \<times> int) list) list"
  fig_empty :: "(string \<times> int list) list"
  fig_arrows :: "arrow list"

definition cv_main ::
  "(string \<Rightarrow> int option) \<Rightarrow> (nat \<Rightarrow> rat \<times> rat) \<Rightarrow> (nat \<Rightarrow> rat) \<Rightarrow> json_record list
     \<Rightarrow> pyerr + cv_figure" where
  "cv_main int_str pos rnd data =
     (case capabilities int_str data of
        Inl e \<Rightarrow> Inl e
      | Inr cps \<Rightarrow>
          (let ti = cv_type_info cps in
           if cv_types cps = [] then Inl ValueError
           else
             (let tai = cv_type_axes_info pos cps in
              case cv_arrows_types int_str tai ti (cv_types cps) rnd 0 of
                Inl e \<Rightarrow> Inl e
              | Inr (as, k) \<Rightarrow>
                  Inr \<lparr> fig_types = cv_types cps, fig_grid = cv_grid cps,
                        fig_axes = cv_type_axes cps, fig_info = ti,
                        fig_rows = map (\<lambda>(typ, info). (typ, cv_drawn_rows info)) ti,
                        fig_empty = map (\<lambda>(typ, info). (typ, cv_empty info)) ti,
                        fig_arrows = as \<rparr>)))"

section \<open>CapabilityVisualization.py\<close>

text \<open>
  The second script indexes the raw dictionaries, so an absent key is a \<^verbatim>\<open>KeyError\<close>.
  What it reads of the records before the arrow loop, in its own order:
  \<^item> the grouping loop reads \<^verbatim>\<open>cap["Type"]\<close> of every record;
  \<^item> then \<^verbatim>\<open>sorted\<close> reads \<^verbatim>\<open>cap["Reference"]\<close> of every member of a group and compares
    the values, group after group in the order of the dictionary;
  \<^item> then the heights are computed with \<^verbatim>\<open>max_ref - min_ref\<close>, type after type;
  \<^item> then the figure is made;
  \<^item> then \<^verbatim>\<open>draw_capability\<close> reads the display fields and the address of every
    member, type after type in sorted order and in the sorted order of each group.
\<close>

fun vis_group_by_type ::
  "json_record list \<Rightarrow> (string \<times> json_record list) list
     \<Rightarrow> pyerr + (string \<times> json_record list) list" where
  "vis_group_by_type [] d = Inr d"
| "vis_group_by_type (cap # data) d =
     (case Type cap of
        None \<Rightarrow> Inl (KeyError ''Type'')
      | Some typ \<Rightarrow> vis_group_by_type data (setdefault_append typ cap d))"

text \<open>
  Python compares integers and booleans with each other and strings with strings; any
  other comparison of two such values, \<^verbatim>\<open>None\<close> with \<^verbatim>\<open>None\<close> included, raises
  \<^verbatim>\<open>TypeError\<close>, and sorting two or more values compares each of them with another.
\<close>

fun is_number :: "jval \<Rightarrow> bool" where
  "is_number (JInt i) = True"
| "is_number (JBool b) = True"
| "is_number v = False"

fun is_str :: "jval \<Rightarrow> bool" where
  "is_str (JStr s) = True"
| "is_str v = False"

fun number_of :: "jval option \<Rightarrow> int" where
  "number_of (Some (JInt i)) = i"
| "number_of (Some (JBool b)) = (if b then 1 else 0)"
| "number_of v = 0"

text \<open>The exception that \<^verbatim>\<open>sorted(type_caps[typ], key=..., reverse=True)\<close> raises, if any.\<close>

definition vis_sort_error :: "json_record list \<Rightarrow> pyerr option" where
  "vis_sort_error g =
     (if list_ex (\<lambda>cap. Reference cap = None) g then Some (KeyError ''Reference'')
      else
        (let keys = List.map_filter Reference g in
         if length keys \<le> 1 \<or> list_all is_number keys \<or> list_all is_str keys then None
         else Some TypeError))"

fun vis_sort_groups :: "(string \<times> json_record list) list \<Rightarrow> pyerr option" where
  "vis_sort_groups [] = None"
| "vis_sort_groups ((typ, g) # d) =
     (case vis_sort_error g of Some e \<Rightarrow> Some e | None \<Rightarrow> vis_sort_groups d)"

text \<open>
  \<^verbatim>\<open>max_ref - min_ref\<close> raises \<^verbatim>\<open>TypeError\<close> for a group whose references are strings or
  a single \<^verbatim>\<open>None\<close>; nothing else can go wrong there, so the order of the types does
  not matter.
\<close>

definition vis_height_error :: "(string \<times> json_record list) list \<Rightarrow> pyerr option" where
  "vis_height_error d =
     (if list_all (\<lambda>(typ, g). list_all is_number (List.map_filter Reference g)) d then None
      else Some TypeError)"

text \<open>
  \<^verbatim>\<open>sections = [capability[key] for key in expected_keys if key != "Reference"]\<close>:
  the first absent key raises.
\<close>

definition expected_keys :: "string list" where
  "expected_keys = [''Tag'', ''Permissions'', ''Executive'', ''Global'', ''Object Type'', ''Bounds'',
                    ''Address'', ''Reference'']"

definition index_key :: "json_record \<Rightarrow> string \<Rightarrow> jval option" where
  "index_key cap key =
     (if key = ''Type'' then map_option JStr (Type cap)
      else if key = ''Reference'' then Reference cap
      else if key = ''Address'' then Address cap
      else Labels cap key)"

fun sections_of :: "json_record \<Rightarrow> string list \<Rightarrow> pyerr + jval list" where
  "sections_of cap [] = Inr []"
| "sections_of cap (key # keys) =
     (if key = ''Reference'' then sections_of cap keys
      else
        (case index_key cap key of
           None \<Rightarrow> Inl (KeyError key)
         | Some v \<Rightarrow> (case sections_of cap keys of Inl e \<Rightarrow> Inl e | Inr vs \<Rightarrow> Inr (v # vs))))"

fun vis_draw_caps :: "json_record list \<Rightarrow> pyerr option" where
  "vis_draw_caps [] = None"
| "vis_draw_caps (cap # g) =
     (case sections_of cap expected_keys of Inl e \<Rightarrow> Some e | Inr vs \<Rightarrow> vis_draw_caps g)"

fun vis_draw_types :: "(string \<times> json_record list) list \<Rightarrow> string list \<Rightarrow> pyerr option" where
  "vis_draw_types d [] = None"
| "vis_draw_types d (typ # ts) =
     (case vis_draw_caps (sorted_reverse (\<lambda>cap. number_of (Reference cap)) (lookup_caps d typ)) of
        Some e \<Rightarrow> Some e
      | None \<Rightarrow> vis_draw_types d ts)"

text \<open>
  The first exception of these steps, if any; \<^verbatim>\<open>plt.subplots(1, 0)\<close> raises
  \<^verbatim>\<open>ValueError\<close> when there is no type.  When there is none, the records are the
  capabilities \<open>vis_caps\<close> that the rest of the script works on.
\<close>

definition vis_read_error :: "json_record list \<Rightarrow> pyerr option" where
  "vis_read_error data =
     (case vis_group_by_type data [] of
        Inl e \<Rightarrow> Some e
      | Inr d \<Rightarrow>
          (case vis_sort_groups d of
             Some e \<Rightarrow> Some e
           | None \<Rightarrow>
               (case vis_height_error d of
                  Some e \<Rightarrow> Some e
                | None \<Rightarrow>
                    if d = [] then Some ValueError
                    else vis_draw_types d (sort (map fst d)))))"

record vcap =
  v_address :: jval
  v_reference :: int
  v_type :: string

definition vis_cap :: "json_record \<Rightarrow> vcap" where
  "vis_cap cap =
     \<lparr> v_address = (case Address cap of Some a \<Rightarrow> a | None \<Rightarrow> JNull),
       v_reference = number_of (Reference cap),
       v_type = (case Type cap of Some typ \<Rightarrow> typ | None \<Rightarrow> []) \<rparr>"

definition vis_caps :: "json_record list \<Rightarrow> pyerr + vcap list" where
  "vis_caps data =
     (case vis_read_error data of Some e \<Rightarrow> Inl e | None \<Rightarrow> Inr (map vis_cap data))"

definition vis_group :: "vcap list \<Rightarrow> (string \<times> vcap list) list" where
  "vis_group cps = foldl (\<lambda>d cap. setdefault_append (v_type cap) cap d) [] cps"

definition vis_type_caps :: "vcap list \<Rightarrow> (string \<times> vcap list) list" where
  "vis_type_caps cps = map (\<lambda>(typ, cs). (typ, sorted_reverse v_reference cs)) (vis_group cps)"

definition vis_types :: "vcap list \<Rightarrow> string list" where
  "vis_types cps = sort (map fst (vis_type_caps cps))"

definition get_reference_range :: "vcap list \<Rightarrow> int \<times> int" where
  "get_reference_range cs =
     (if cs = [] then (0, 1)
      else (let refs = map v_reference cs in (py_min refs, py_max refs)))"

record vis_info =
  vmin :: int
  vmax :: int
  vheight :: rat
  vcaps :: "vcap list"
  vy_positions :: "(int \<times> int) list"

definition vis_info_of :: "vcap list \<Rightarrow> vis_info" where
  "vis_info_of cs =
     (let (mn, mx) = get_reference_range cs;
          h = calculate_figure_height mn mx (length cs)
      in \<lparr> vmin = mn, vmax = mx, vheight = h, vcaps = cs,
           vy_positions = map (\<lambda>c. (v_reference c, v_reference c)) cs \<rparr>)"

definition vis_type_info :: "vcap list \<Rightarrow> (string \<times> vis_info) list" where
  "vis_type_info cps =
     map (\<lambda>typ. (typ, vis_info_of (lookup_caps (vis_type_caps cps) typ))) (vis_types cps)"

definition vis_grid :: "vcap list \<Rightarrow> nat \<times> nat" where
  "vis_grid cps = grid_layout (length (vis_types cps))"

definition vis_type_to_axis :: "vcap list \<Rightarrow> (string \<times> nat) list" where
  "vis_type_to_axis cps = zip (vis_types cps) [0 ..< length (vis_types cps)]"

text \<open>\<^verbatim>\<open>y_positions[cap["Reference"]]\<close>: indexing, a \<^verbatim>\<open>KeyError\<close> for a missing key.\<close>

definition dict_index :: "(int \<times> int) list \<Rightarrow> int \<Rightarrow> pyerr + int" where
  "dict_index d k = (case map_of d k of Some v \<Rightarrow> Inr v | None \<Rightarrow> Inl (KeyError ''y_positions''))"

fun vis_drawn_rows :: "(int \<times> int) list \<Rightarrow> vcap list \<Rightarrow> pyerr + (vcap \<times> int) list" where
  "vis_drawn_rows yp [] = Inr []"
| "vis_drawn_rows yp (cap # cs) =
     (case dict_index yp (v_reference cap) of
        Inl e \<Rightarrow> Inl e
      | Inr y_pos \<Rightarrow>
          (case vis_drawn_rows yp cs of Inl e \<Rightarrow> Inl e | Inr rows \<Rightarrow> Inr ((cap, y_pos) # rows)))"

definition vis_empty :: "vis_info \<Rightarrow> int list" where
  "vis_empty info =
     empty_addresses (vmin info) (vmax info) (set (map snd (vy_positions info)))"

definition vis_type_axes_info ::
  "(nat \<Rightarrow> rat \<times> rat) \<Rightarrow> vcap list \<Rightarrow> (string \<times> axes_info) list" where
  "vis_type_axes_info pos cps =
     map (\<lambda>((typ, info), i).
            (typ, \<lparr> ai_min = vmin info, ai_max = vmax info,
                     center_x = (fst (pos i) + snd (pos i)) / 2 \<rparr>))
         (zip (vis_type_info cps) [0 ..< length (vis_type_info cps)])"

text \<open>
  \<^verbatim>\<open>str(cap["Address"])\<close> followed by \<^verbatim>\<open>int(address_str)\<close> with only \<^verbatim>\<open>ValueError\<close>
  caught.  \<^verbatim>\<open>str\<close> of an integer is its decimal numeral, of a boolean \<^verbatim>\<open>True\<close> or
  \<^verbatim>\<open>False\<close>, of \<^verbatim>\<open>None\<close> the word \<^verbatim>\<open>None\<close>.
\<close>

function dec_nat :: "nat \<Rightarrow> string" where
  "dec_nat n =
     (if n < 10 then [char_of (48 + n)] else dec_nat (n div 10) @ [char_of (48 + n mod 10)])"
  by pat_completeness auto
termination
  by (relation "measure (\<lambda>n. n)") auto

definition py_str :: "jval \<Rightarrow> string" where
  "py_str v =
     (case v of
        JNull \<Rightarrow> ''None''
      | JBool b \<Rightarrow> (if b then ''True'' else ''False'')
      | JInt i \<Rightarrow> (if i < 0 then CHR ''-'' # dec_nat (nat (- i)) else dec_nat (nat i))
      | JStr s \<Rightarrow> s)"

definition vis_address_val :: "(string \<Rightarrow> int option) \<Rightarrow> jval \<Rightarrow> pyerr + int option" where
  "vis_address_val int_str a =
     (let address_str = py_str a in
      case int_str address_str of
        Some i \<Rightarrow> Inr (Some i)
      | None \<Rightarrow> Inr None)"

definition vis_arrow ::
  "(string \<Rightarrow> int option) \<Rightarrow> (string \<times> axes_info) list \<Rightarrow> (string \<times> vis_info) list \<Rightarrow> string \<Rightarrow> vcap \<Rightarrow> rat
     \<Rightarrow> pyerr + arrow option" where
  "vis_arrow int_str tai ti typ cap u =
     (case map_of ti typ of
        None \<Rightarrow> Inl (KeyError typ)
      | Some info \<Rightarrow>
          (case dict_index (vy_positions info) (v_reference cap) of
             Inl e \<Rightarrow> Inl e
           | Inr source_y \<Rightarrow>
               (case vis_address_val int_str (v_address cap) of
                  Inl e \<Rightarrow> Inl e
                | Inr None \<Rightarrow> Inr None
                | Inr (Some address_val) \<Rightarrow>
                    (case resolve_target tai address_val of
                       None \<Rightarrow> Inr None
                     | Some target_type \<Rightarrow>
                         (let target_y = of_int address_val + u in
                          if typ = target_type then
                            (if address_val < v_reference cap
                             then Inr (Some (mk_arrow typ target_type (-2) (of_int source_y) (-2)
                                              target_y (Arc3_rad (3 / 10))))
                             else Inr (Some (mk_arrow typ target_type (x_max + 1) (of_int source_y)
                                              (x_max + 1) target_y (Arc3_rad (- (3 / 10))))))
                          else
                            (case (map_of tai typ, map_of tai target_type) of
                               (Some s, Some t) \<Rightarrow>
                                 (let source_center = center_x s; target_center = center_x t in
                                  if source_center < target_center
                                  then Inr (Some (mk_arrow typ target_type x_max (of_int source_y)
                                                   x_min target_y Style_default))
                                  else Inr (Some (mk_arrow typ target_type x_min (of_int source_y)
                                                   x_max target_y Style_default)))
                             | (None, _) \<Rightarrow> Inl (KeyError typ)
                             | (_, None) \<Rightarrow> Inl (KeyError target_type)))))))"

fun vis_arrows_caps ::
  "(string \<Rightarrow> int option) \<Rightarrow> (string \<times> axes_info) list \<Rightarrow> (string \<times> vis_info) list \<Rightarrow> string \<Rightarrow> vcap list
     \<Rightarrow> (nat \<Rightarrow> rat) \<Rightarrow> nat \<Rightarrow> pyerr + (arrow list \<times> nat)" where
  "vis_arrows_caps int_str tai ti typ [] rnd k = Inr ([], k)"
| "vis_arrows_caps int_str tai ti typ (cap # cs) rnd k =
     (case vis_arrow int_str tai ti typ cap (rnd k) of
        Inl e \<Rightarrow> Inl e
      | Inr None \<Rightarrow> vis_arrows_caps int_str tai ti typ cs rnd k
      | Inr (Some a) \<Rightarrow>
          (case vis_arrows_caps int_str tai ti typ cs rnd (Suc k) of
             Inl e \<Rightarrow> Inl e
           | Inr (as, k') \<Rightarrow> Inr (a # as, k')))"

fun vis_arrows_types ::
  "(string \<Rightarrow> int option) \<Rightarrow> (string \<times> axes_info) list \<Rightarrow> (string \<times> vis_info) list \<Rightarrow> string list
     \<Rightarrow> (nat \<Rightarrow> rat) \<Rightarrow> nat \<Rightarrow> pyerr + (arrow list \<times> nat)" where
  "vis_arrows_types int_str tai ti [] rnd k = Inr ([], k)"
| "vis_arrows_types int_str tai ti (typ # ts) rnd k =
     (case map_of ti typ of
        None \<Rightarrow> Inl (KeyError typ)
      | Some info \<Rightarrow>
          (case vis_arrows_caps int_str tai ti typ (vcaps info) rnd k of
             Inl e \<Rightarrow> Inl e
           | Inr (as, k') \<Rightarrow>
               (case vis_arrows_types int_str tai ti ts rnd k' of
                  Inl e \<Rightarrow> Inl e
                | Inr (bs, k'') \<Rightarrow> Inr (as @ bs, k''))))"

record vis_figure =
  vfig_types :: "string list"
  vfig_grid :: "nat \<times> nat"
  vfig_axes :: "(string \<times> nat) list"
  vfig_info :: "(string \<times> vis_info) list"
  vfig_empty :: "(string \<times> int list) list"
  vfig_arrows :: "arrow list"

definition vis_main ::
  "(string \<Rightarrow> int option) \<Rightarrow> (nat \<Rightarrow> rat \<times> rat) \<Rightarrow> (nat \<Rightarrow> rat) \<Rightarrow> json_record list \<Rightarrow> pyerr + vis_figure" where
  "vis_main int_str pos rnd data =
     (case vis_caps data of
        Inl e \<Rightarrow> Inl e
      | Inr cps \<Rightarrow>
          (let ti = vis_type_info cps; tai = vis_type_axes_info pos cps in
           case vis_arrows_types int_str tai ti (vis_types cps) rnd 0 of
             Inl e \<Rightarrow> Inl e
           | Inr (as, k) \<Rightarrow>
               Inr \<lparr> vfig_types = vis_types cps, vfig_grid = vis_grid cps,
                     vfig_axes = vis_type_to_axis cps, vfig_info = ti,
                     vfig_empty = map (\<lambda>(typ, info). (typ, vis_empty info)) ti,
                     vfig_arrows = as \<rparr>))"

section \<open>What two runs can be compared on\<close>

text \<open>
  An arrow with the y-coordinate of its target blanked, the only place where the random
  number enters, and a figure with its arrows blanked so.
\<close>

definition blank_jitter :: "arrow \<Rightarrow> arrow" where
  "blank_jitter a = a \<lparr> tgt_pt := (fst (tgt_pt a), 0) \<rparr>"

definition cv_stable :: "cv_figure \<Rightarrow> cv_figure" where
  "cv_stable fig = fig \<lparr> fig_arrows := map blank_jitter (fig_arrows fig) \<rparr>"

definition vis_stable :: "vis_figure \<Rightarrow> vis_figure" where
  "vis_stable fig = fig \<lparr> vfig_arrows := map blank_jitter (vfig_arrows fig) \<rparr>"

section \<open>Dictionaries and sorting\<close>

lemma keys_setdefault_append:
  "map fst (setdefault_append k v d) = (if k \<in> fst ` set d then map fst d else map fst d @ [k])"
  by (induction d) (force+)

lemma map_of_setdefault_append:
  "map_of (setdefault_append k v d) =
     (map_of d)(k \<mapsto> (case map_of d k of None \<Rightarrow> [v] | Some vs \<Rightarrow> vs @ [v]))"
  by (induction d) (auto simp: fun_eq_iff)

lemma distinct_setdefault_append:
  "distinct (map fst d) \<Longrightarrow> distinct (map fst (setdefault_append k v d))"
  by (simp add: keys_setdefault_append)

lemma group_fold_keys:
  "set (map fst (foldl (\<lambda>d x. setdefault_append (f x) x d) d0 xs)) = fst ` set d0 \<union> f ` set xs"
proof (induction xs arbitrary: d0)
  case Nil
  then show ?case by simp
next
  case (Cons x xs)
  have "fst ` set (setdefault_append (f x) x d0) = insert (f x) (fst ` set d0)"
    using keys_setdefault_append [of "f x" x d0]
    by (metis (no_types, lifting) insert_absorb list.set_map set_append list.simps(15) Un_insert_right
        sup_bot_right empty_set)
  with Cons.IH [of "setdefault_append (f x) x d0"] show ?case by auto
qed

lemma group_fold_distinct:
  "distinct (map fst d0) \<Longrightarrow> distinct (map fst (foldl (\<lambda>d x. setdefault_append (f x) x d) d0 xs))"
  by (induction xs arbitrary: d0) (simp_all add: distinct_setdefault_append)

lemma group_fold_map_of:
  "map_of (foldl (\<lambda>d x. setdefault_append (f x) x d) d0 xs) t =
     (case map_of d0 t of
        None \<Rightarrow> (if t \<in> f ` set xs then Some (filter (\<lambda>x. f x = t) xs) else None)
      | Some vs \<Rightarrow> Some (vs @ filter (\<lambda>x. f x = t) xs))"
proof (induction xs arbitrary: d0)
  case Nil
  then show ?case by (simp split: option.splits)
next
  case (Cons x xs)
  show ?case
    by (simp add: Cons.IH map_of_setdefault_append split: option.splits)
qed

lemma set_sorted_reverse [simp]: "set (sorted_reverse k xs) = set xs"
  by (simp add: sorted_reverse_def)

lemma mset_sorted_reverse [simp]: "mset (sorted_reverse k xs) = mset xs"
  by (simp add: sorted_reverse_def)

lemma length_sorted_reverse [simp]: "length (sorted_reverse k xs) = length xs"
  by (simp add: sorted_reverse_def)

lemma sorted_reverse_descending: "sorted (rev (map k (sorted_reverse k xs)))"
  by (simp add: sorted_reverse_def rev_map [symmetric])

lemma sorted_reverse_stable:
  "filter (\<lambda>y. k y = v) (sorted_reverse k xs) = filter (\<lambda>y. k y = v) xs"
  by (simp add: sorted_reverse_def rev_filter [symmetric] sort_key_stable)

section \<open>Groups, ranges and empty rows\<close>

lemma cv_group_keys: "set (map fst (cv_group cps)) = type ` set cps"
  unfolding cv_group_def using group_fold_keys [of type "[]" cps] by simp

lemma cv_group_distinct: "distinct (map fst (cv_group cps))"
  unfolding cv_group_def by (rule group_fold_distinct) simp

lemma cv_group_map_of:
  "map_of (cv_group cps) t =
     (if t \<in> type ` set cps then Some (filter (\<lambda>c. type c = t) cps) else None)"
  unfolding cv_group_def using group_fold_map_of [of type "[]" cps t] by simp

lemma map_of_map_values:
  "map_of (map (\<lambda>(k, v). (k, g v)) d) t = map_option g (map_of d t)"
  by (induction d) auto

lemma cv_type_caps_keys [simp]: "map fst (cv_type_caps cps) = map fst (cv_group cps)"
  by (simp add: cv_type_caps_def case_prod_beta comp_def)

lemma cv_lookup_caps:
  "lookup_caps (cv_type_caps cps) t =
     (if t \<in> type ` set cps then sorted_reverse ref_key (filter (\<lambda>c. type c = t) cps) else [])"
  by (simp add: lookup_caps_def cv_type_caps_def map_of_map_values cv_group_map_of)

lemma cv_types_set [simp]: "set (cv_types cps) = type ` set cps"
  by (simp add: cv_types_def cv_group_keys [simplified])

lemma cv_types_sorted [simp]: "sorted (cv_types cps)"
  by (simp add: cv_types_def)

lemma cv_types_distinct [simp]: "distinct (cv_types cps)"
  by (simp add: cv_types_def cv_group_distinct)

lemma cv_types_eq: "cv_types cps = sorted_list_of_set (type ` set cps)"
  by (intro sorted_distinct_set_unique) simp_all

lemma vis_group_keys: "set (map fst (vis_group cps)) = v_type ` set cps"
  unfolding vis_group_def using group_fold_keys [of v_type "[]" cps] by simp

lemma vis_group_distinct: "distinct (map fst (vis_group cps))"
  unfolding vis_group_def by (rule group_fold_distinct) simp

lemma vis_group_map_of:
  "map_of (vis_group cps) t =
     (if t \<in> v_type ` set cps then Some (filter (\<lambda>c. v_type c = t) cps) else None)"
  unfolding vis_group_def using group_fold_map_of [of v_type "[]" cps t] by simp

lemma vis_type_caps_keys [simp]: "map fst (vis_type_caps cps) = map fst (vis_group cps)"
  by (simp add: vis_type_caps_def case_prod_beta comp_def)

lemma vis_lookup_caps:
  "lookup_caps (vis_type_caps cps) t =
     (if t \<in> v_type ` set cps then sorted_reverse v_reference (filter (\<lambda>c. v_type c = t) cps)
      else [])"
  by (simp add: lookup_caps_def vis_type_caps_def map_of_map_values vis_group_map_of)

lemma vis_types_set [simp]: "set (vis_types cps) = v_type ` set cps"
  by (simp add: vis_types_def vis_group_keys [simplified])

lemma vis_types_sorted [simp]: "sorted (vis_types cps)"
  by (simp add: vis_types_def)

lemma vis_types_distinct [simp]: "distinct (vis_types cps)"
  by (simp add: vis_types_def vis_group_distinct)

lemma vis_types_eq: "vis_types cps = sorted_list_of_set (v_type ` set cps)"
  by (intro sorted_distinct_set_unique) simp_all

lemma fold_min_props:
  "fold min xs (x::int) \<le> x \<and> (\<forall>y\<in>set xs. fold min xs x \<le> y) \<and> fold min xs x \<in> insert x (set xs)"
proof (induction xs arbitrary: x)
  case Nil
  then show ?case by simp
next
  case (Cons y ys)
  from Cons.IH [of "min y x"] show ?case
    by (auto simp: min_def split: if_splits)
qed

lemma fold_max_props:
  "x \<le> fold max xs (x::int) \<and> (\<forall>y\<in>set xs. y \<le> fold max xs x) \<and> fold max xs x \<in> insert x (set xs)"
proof (induction xs arbitrary: x)
  case Nil
  then show ?case by simp
next
  case (Cons y ys)
  from Cons.IH [of "max y x"] show ?case
    by (auto simp: max_def split: if_splits)
qed

lemma py_min_Min: "xs \<noteq> [] \<Longrightarrow> py_min xs = Min (set xs)"
proof (cases xs)
  case Nil
  assume "xs \<noteq> []"
  with Nil show ?thesis by simp
next
  case (Cons x ys)
  have "Min (set (x # ys)) = fold min ys x"
    using fold_min_props [where xs = ys and x = x] by (intro Min_eqI) auto
  with Cons show ?thesis by simp
qed

lemma py_max_Max: "xs \<noteq> [] \<Longrightarrow> py_max xs = Max (set xs)"
proof (cases xs)
  case Nil
  assume "xs \<noteq> []"
  with Nil show ?thesis by simp
next
  case (Cons x ys)
  have "Max (set (x # ys)) = fold max ys x"
    using fold_max_props [where xs = ys and x = x] by (intro Max_eqI) auto
  with Cons show ?thesis by simp
qed

lemma py_min_le: "x \<in> set xs \<Longrightarrow> py_min xs \<le> x"
  by (cases "xs = []") (simp_all add: py_min_Min)

lemma py_max_ge: "x \<in> set xs \<Longrightarrow> x \<le> py_max xs"
  by (cases "xs = []") (simp_all add: py_max_Max)

lemma set_empty_addresses [simp]:
  "set (empty_addresses mn mx occ) = {mn .. mx} - occ"
  by (simp add: empty_addresses_def)

lemma distinct_empty_addresses [simp]: "distinct (empty_addresses mn mx occ)"
  by (simp add: empty_addresses_def)

lemma sorted_empty_addresses [simp]: "sorted (empty_addresses mn mx occ)"
  by (simp add: empty_addresses_def)

lemma length_empty_addresses:
  "occ \<subseteq> {mn .. mx} \<Longrightarrow> length (empty_addresses mn mx occ) = nat (mx - mn + 1) - card occ"
proof -
  assume sub: "occ \<subseteq> {mn .. mx}"
  have "length (empty_addresses mn mx occ) = card ({mn .. mx} - occ)"
    by (simp add: empty_addresses_def)
  also have "\<dots> = card {mn .. mx} - card occ"
    using sub by (simp add: card_Diff_subset finite_subset)
  finally show ?thesis by simp
qed

lemma empty_addresses_code:
  "empty_addresses mn mx (set occ) = filter (\<lambda>a. a \<notin> set occ) [mn .. mx]"
  by (intro sorted_distinct_set_unique) (auto simp: sorted_filter [where f = "\<lambda>x. x", simplified])

lemma set_map_filter: "set (List.map_filter f xs) = {y. \<exists>x\<in>set xs. f x = Some y}"
  by (induction xs) (auto simp: List.map_filter_simps split: option.splits)

lemma get_ref_range_none:
  "\<forall>c\<in>set cs. reference c = None \<Longrightarrow> get_ref_range cs = (0, 1)"
proof -
  assume a: "\<forall>c\<in>set cs. reference c = None"
  then have "set (List.map_filter reference cs) = {}"
    by (auto simp: set_map_filter)
  then show ?thesis by (simp add: get_ref_range_def)
qed

lemma get_ref_range_bounds:
  assumes "c \<in> set cs" and "reference c = Some r"
  shows "fst (get_ref_range cs) \<le> r \<and> r \<le> snd (get_ref_range cs)"
proof -
  have "r \<in> set (List.map_filter reference cs)"
    using assms by (auto simp: set_map_filter)
  then show ?thesis
    by (auto simp: get_ref_range_def Let_def py_min_le py_max_ge)
qed

lemma cv_info_of_fields [simp]:
  "min_ref (cv_info_of cs) = fst (get_ref_range cs)"
  "max_ref (cv_info_of cs) = snd (get_ref_range cs)"
  "caps (cv_info_of cs) = cs"
  "y_positions (cv_info_of cs) = map (\<lambda>r. (r, r)) (List.map_filter reference cs)"
  "height (cv_info_of cs) =
     min (calc_height (fst (get_ref_range cs)) (snd (get_ref_range cs)) (length cs) 6 (3 / 5) (3 / 2))
       MAX_SUBPLOT_HEIGHT"
  by (simp_all add: cv_info_of_def case_prod_beta Let_def)

lemma cv_occupied:
  "set (map snd (y_positions (cv_info_of cs))) = {r. \<exists>c\<in>set cs. reference c = Some r}"
  by (simp add: set_map_filter comp_def)

lemma cv_occupied_subset:
  "set (map snd (y_positions (cv_info_of cs))) \<subseteq> {min_ref (cv_info_of cs) .. max_ref (cv_info_of cs)}"
proof -
  have "{r. \<exists>c\<in>set cs. reference c = Some r} \<subseteq> {fst (get_ref_range cs) .. snd (get_ref_range cs)}"
    using get_ref_range_bounds by fastforce
  then show ?thesis unfolding cv_occupied by simp
qed

lemma dict_get_identity [simp]: "dict_get (map (\<lambda>r. (r, r)) rs) k k = k"
  by (induction rs) (auto simp: dict_get_def)

lemma cv_drawn_rows_eq:
  "cv_drawn_rows (cv_info_of cs) =
     List.map_filter (\<lambda>cap. map_option (\<lambda>r. (cap, r)) (reference cap)) cs"
proof -
  have h: "(\<lambda>cap. case reference cap of None \<Rightarrow> None
                | Some r \<Rightarrow> Some (cap, dict_get (y_positions (cv_info_of cs)) r r))
         = (\<lambda>cap. map_option (\<lambda>r. (cap, r)) (reference cap))"
    by (rule ext) (simp split: option.splits)
  show ?thesis unfolding cv_drawn_rows_def h by simp
qed

lemma vis_info_of_fields [simp]:
  "vmin (vis_info_of cs) = fst (get_reference_range cs)"
  "vmax (vis_info_of cs) = snd (get_reference_range cs)"
  "vcaps (vis_info_of cs) = cs"
  "vy_positions (vis_info_of cs) = map (\<lambda>c. (v_reference c, v_reference c)) cs"
  "vheight (vis_info_of cs) =
     calculate_figure_height (fst (get_reference_range cs)) (snd (get_reference_range cs)) (length cs)"
  by (simp_all add: vis_info_of_def case_prod_beta Let_def)

lemma get_reference_range_bounds:
  "c \<in> set cs \<Longrightarrow>
     fst (get_reference_range cs) \<le> v_reference c \<and> v_reference c \<le> snd (get_reference_range cs)"
  by (auto simp: get_reference_range_def Let_def py_min_le py_max_ge)

lemma vis_occupied: "set (map snd (vy_positions (vis_info_of cs))) = v_reference ` set cs"
  by (simp add: comp_def)

lemma vis_occupied_subset:
  "set (map snd (vy_positions (vis_info_of cs))) \<subseteq> {vmin (vis_info_of cs) .. vmax (vis_info_of cs)}"
  using get_reference_range_bounds by (auto simp: comp_def)

section \<open>Grid shape and panel height\<close>

lemma cv_types_length: "length (cv_types cps) = card (type ` set cps)"
  using distinct_card [of "cv_types cps"] by simp

lemma vis_types_length: "length (vis_types cps) = card (v_type ` set cps)"
  using distinct_card [of "vis_types cps"] by simp

lemma calc_height_mono:
  assumes "n \<le> n'" and "mx - mn \<le> mx' - mn'"
  shows "calc_height mn mx n 6 (3 / 5) (3 / 2) \<le> calc_height mn' mx' n' 6 (3 / 5) (3 / 2)"
proof -
  have a: "(of_int (mx - mn) :: rat) * (3 / 2) \<le> of_int (mx' - mn') * (3 / 2)"
    using assms(2) by simp
  have b: "(of_nat n :: rat) * (3 / 5) \<le> of_nat n' * (3 / 5)"
    using assms(1) by simp
  show ?thesis
    unfolding calc_height_def using a b by (intro max.mono order_refl)
qed

lemma calculate_figure_height_eq:
  "calculate_figure_height mn mx n = calc_height mn mx n 6 (3 / 5) (3 / 2)"
  by (simp add: calculate_figure_height_def calc_height_def base_height_def per_cap_height_def
      range_factor_def)

lemma calc_height_ge_base: "6 \<le> calc_height mn mx n 6 (3 / 5) (3 / 2)"
  by (simp add: calc_height_def le_max_iff_disj)

text \<open>
  C4. The grid of panels is the table of the number \<open>n\<close> of distinct types:
  1 gives 1x1, 2 gives 1x2, 3 gives 1x3, 4 gives 2x2, 5 and 6 give 2x3, every other
  \<open>n\<close> gives 1xn (7 gives 1x7); both scripts apply it to the number of distinct types
  of their input.
\<close>

theorem grid_shape_table:
  "grid_layout 1 = (1, 1) \<and> grid_layout 2 = (1, 2) \<and> grid_layout 3 = (1, 3)
   \<and> grid_layout 4 = (2, 2) \<and> grid_layout 5 = (2, 3) \<and> grid_layout 6 = (2, 3)
   \<and> grid_layout 7 = (1, 7)
   \<and> (n \<notin> {1, 2, 3, 4, 5, 6} \<longrightarrow> grid_layout n = (1, n))
   \<and> cv_grid cps = grid_layout (card (type ` set cps))
   \<and> vis_grid vcps = grid_layout (card (v_type ` set vcps))"
  by (simp add: grid_layout_def cv_grid_def vis_grid_def cv_types_length vis_types_length)

theorem grid_shape_table_witness:
  "grid_layout 9 = (1, 9)
   \<and> cv_grid [\<lparr>address = JStr ''0'', reference = Some 1, type = ''A''\<rparr>,
               \<lparr>address = JStr ''0'', reference = Some 2, type = ''D''\<rparr>,
               \<lparr>address = JStr ''0'', reference = Some 3, type = ''B''\<rparr>,
               \<lparr>address = JStr ''0'', reference = Some 4, type = ''A''\<rparr>,
               \<lparr>address = JStr ''0'', reference = None, type = ''C''\<rparr>] = (2, 2)
   \<and> vis_grid [\<lparr>v_address = JInt 0, v_reference = 1, v_type = ''A''\<rparr>,
                \<lparr>v_address = JInt 0, v_reference = 2, v_type = ''B''\<rparr>] = (1, 2)"
  using grid_shape_table [of 9
      "[\<lparr>address = JStr ''0'', reference = Some 1, type = ''A''\<rparr>,
        \<lparr>address = JStr ''0'', reference = Some 2, type = ''D''\<rparr>,
        \<lparr>address = JStr ''0'', reference = Some 3, type = ''B''\<rparr>,
        \<lparr>address = JStr ''0'', reference = Some 4, type = ''A''\<rparr>,
        \<lparr>address = JStr ''0'', reference = None, type = ''C''\<rparr>]"
      "[\<lparr>v_address = JInt 0, v_reference = 1, v_type = ''A''\<rparr>,
        \<lparr>v_address = JInt 0, v_reference = 2, v_type = ''B''\<rparr>]"]
  by (simp add: card_insert_if grid_layout_def)

text \<open>
  C5. The height of a panel is \<open>max (6, (max_ref - min_ref) * 1.5, count * 0.6)\<close>, capped
  at 10 in CapabilityClassVis.py and uncapped in CapabilityVisualization.py; it is never
  below 6, and it does not decrease when the member count and the reference range grow.
\<close>

theorem panel_height:
  "height (cv_info_of cs) =
     min (max (max 6 (of_int (max_ref (cv_info_of cs) - min_ref (cv_info_of cs)) * (3 / 2)))
              (of_nat (length cs) * (3 / 5))) 10
   \<and> vheight (vis_info_of vs) =
     max (max 6 (of_int (vmax (vis_info_of vs) - vmin (vis_info_of vs)) * (3 / 2)))
         (of_nat (length vs) * (3 / 5))
   \<and> 6 \<le> height (cv_info_of cs) \<and> 6 \<le> vheight (vis_info_of vs)
   \<and> (n \<le> n' \<and> mx - mn \<le> mx' - mn' \<longrightarrow>
        calc_height mn mx n 6 (3 / 5) (3 / 2) \<le> calc_height mn' mx' n' 6 (3 / 5) (3 / 2)
        \<and> min (calc_height mn mx n 6 (3 / 5) (3 / 2)) MAX_SUBPLOT_HEIGHT
            \<le> min (calc_height mn' mx' n' 6 (3 / 5) (3 / 2)) MAX_SUBPLOT_HEIGHT
        \<and> calculate_figure_height mn mx n \<le> calculate_figure_height mn' mx' n')"
proof -
  have 1: "height (cv_info_of cs) =
     min (max (max 6 (of_int (max_ref (cv_info_of cs) - min_ref (cv_info_of cs)) * (3 / 2)))
              (of_nat (length cs) * (3 / 5))) 10"
    by (simp add: calc_height_def MAX_SUBPLOT_HEIGHT_def)
  have 2: "vheight (vis_info_of vs) =
     max (max 6 (of_int (vmax (vis_info_of vs) - vmin (vis_info_of vs)) * (3 / 2)))
         (of_nat (length vs) * (3 / 5))"
    by (simp add: calculate_figure_height_eq calc_height_def)
  have 3: "6 \<le> height (cv_info_of cs)"
    using calc_height_ge_base by (simp add: MAX_SUBPLOT_HEIGHT_def)
  have 4: "6 \<le> vheight (vis_info_of vs)"
    using calc_height_ge_base by (simp add: calculate_figure_height_eq)
  have 5: "n \<le> n' \<and> mx - mn \<le> mx' - mn' \<longrightarrow>
        calc_height mn mx n 6 (3 / 5) (3 / 2) \<le> calc_height mn' mx' n' 6 (3 / 5) (3 / 2)
        \<and> min (calc_height mn mx n 6 (3 / 5) (3 / 2)) MAX_SUBPLOT_HEIGHT
            \<le> min (calc_height mn' mx' n' 6 (3 / 5) (3 / 2)) MAX_SUBPLOT_HEIGHT
        \<and> calculate_figure_height mn mx n \<le> calculate_figure_height mn' mx' n'"
    using calc_height_mono [of n n' mx mn mx' mn']
    by (auto simp: calculate_figure_height_eq intro: min.mono)
  from 1 2 3 4 5 show ?thesis by blast
qed

theorem panel_height_witness:
  "(3::nat) \<le> 20 \<and> (9::int) - 0 \<le> 9 - 0
   \<and> calc_height 0 9 3 6 (3 / 5) (3 / 2) = 27 / 2
   \<and> calc_height 0 9 20 6 (3 / 5) (3 / 2) = 27 / 2
   \<and> calc_height 0 9 3 6 (3 / 5) (3 / 2) \<le> calc_height 0 9 20 6 (3 / 5) (3 / 2)
   \<and> height (cv_info_of [\<lparr>address = JStr ''3'', reference = Some 5, type = ''A''\<rparr>,
                          \<lparr>address = JStr ''7'', reference = Some 3, type = ''A''\<rparr>]) = 6
   \<and> height (cv_info_of [\<lparr>address = JStr ''3'', reference = Some 15, type = ''A''\<rparr>,
                          \<lparr>address = JStr ''7'', reference = Some 3, type = ''A''\<rparr>]) = 10
   \<and> vheight (vis_info_of [\<lparr>v_address = JStr ''3'', v_reference = 15, v_type = ''A''\<rparr>,
                            \<lparr>v_address = JStr ''7'', v_reference = 3, v_type = ''A''\<rparr>]) = 18"
  using panel_height [of "[\<lparr>address = JStr ''3'', reference = Some 5, type = ''A''\<rparr>,
                          \<lparr>address = JStr ''7'', reference = Some 3, type = ''A''\<rparr>]"
      "[\<lparr>v_address = JStr ''3'', v_reference = 15, v_type = ''A''\<rparr>,
        \<lparr>v_address = JStr ''7'', v_reference = 3, v_type = ''A''\<rparr>]" 3 20 9 0 9 0]
  by (simp add: calc_height_def get_ref_range_def get_reference_range_def List.map_filter_simps
      MAX_SUBPLOT_HEIGHT_def calculate_figure_height_eq)

section \<open>Resolving an address to a panel\<close>

lemma map_zip_index: "map (\<lambda>(x, i). g x) (zip xs [0 ..< length xs]) = map g xs"
  by (intro nth_equalityI) simp_all

lemma cv_type_info_keys [simp]: "map fst (cv_type_info cps) = cv_types cps"
  by (simp add: cv_type_info_def comp_def)

lemma vis_type_info_keys [simp]: "map fst (vis_type_info cps) = vis_types cps"
  by (simp add: vis_type_info_def comp_def)

lemma cv_tai_keys [simp]: "map fst (cv_type_axes_info pos cps) = cv_types cps"
proof -
  have "map fst (cv_type_axes_info pos cps)
          = map (\<lambda>(x, i). fst x) (zip (cv_type_info cps) [0 ..< length (cv_type_info cps)])"
    by (simp add: cv_type_axes_info_def case_prod_beta comp_def)
  then show ?thesis by (simp only: map_zip_index cv_type_info_keys)
qed

lemma vis_tai_keys [simp]: "map fst (vis_type_axes_info pos cps) = vis_types cps"
proof -
  have "map fst (vis_type_axes_info pos cps)
          = map (\<lambda>(x, i). fst x) (zip (vis_type_info cps) [0 ..< length (vis_type_info cps)])"
    by (simp add: vis_type_axes_info_def case_prod_beta comp_def)
  then show ?thesis by (simp only: map_zip_index vis_type_info_keys)
qed

lemma cv_tai_ranges:
  "map (\<lambda>(t, e). (t, ai_min e, ai_max e)) (cv_type_axes_info pos cps)
     = map (\<lambda>t. (t, get_ref_range (lookup_caps (cv_type_caps cps) t))) (cv_types cps)"
proof -
  have "map (\<lambda>(t, e). (t, ai_min e, ai_max e)) (cv_type_axes_info pos cps)
          = map (\<lambda>(x, i). (fst x, min_ref (snd x), max_ref (snd x)))
              (zip (cv_type_info cps) [0 ..< length (cv_type_info cps)])"
    by (simp add: cv_type_axes_info_def case_prod_beta comp_def)
  also have "\<dots> = map (\<lambda>x. (fst x, min_ref (snd x), max_ref (snd x))) (cv_type_info cps)"
    by (rule map_zip_index)
  also have "\<dots> = map (\<lambda>t. (t, get_ref_range (lookup_caps (cv_type_caps cps) t))) (cv_types cps)"
    by (simp add: cv_type_info_def comp_def)
  finally show ?thesis .
qed

lemma vis_tai_ranges:
  "map (\<lambda>(t, e). (t, ai_min e, ai_max e)) (vis_type_axes_info pos cps)
     = map (\<lambda>t. (t, get_reference_range (lookup_caps (vis_type_caps cps) t))) (vis_types cps)"
proof -
  have "map (\<lambda>(t, e). (t, ai_min e, ai_max e)) (vis_type_axes_info pos cps)
          = map (\<lambda>(x, i). (fst x, vmin (snd x), vmax (snd x)))
              (zip (vis_type_info cps) [0 ..< length (vis_type_info cps)])"
    by (simp add: vis_type_axes_info_def case_prod_beta comp_def)
  also have "\<dots> = map (\<lambda>x. (fst x, vmin (snd x), vmax (snd x))) (vis_type_info cps)"
    by (rule map_zip_index)
  also have "\<dots> = map (\<lambda>t. (t, get_reference_range (lookup_caps (vis_type_caps cps) t))) (vis_types cps)"
    by (simp add: vis_type_info_def comp_def)
  finally show ?thesis .
qed

lemma range_of_entry:
  assumes "map (\<lambda>(t, e). (t, ai_min e, ai_max e)) tai = map (\<lambda>t. (t, f t)) ts"
    and "(t, e) \<in> set tai"
  shows "(ai_min e, ai_max e) = f t"
proof -
  have "(t, ai_min e, ai_max e) \<in> set (map (\<lambda>(t, e). (t, ai_min e, ai_max e)) tai)"
    using assms(2) by force
  then have "(t, ai_min e, ai_max e) \<in> set (map (\<lambda>t. (t, f t)) ts)"
    by (simp only: assms(1))
  then show ?thesis by auto
qed

lemma resolve_target_None: "resolve_target tai a = None \<longleftrightarrow> (\<forall>e\<in>set tai. \<not> covers a e)"
  by (auto simp: resolve_target_def find_None_iff)

lemma find_Some_mem: "find P xs = Some x \<Longrightarrow> x \<in> set xs \<and> P x"
  by (induction xs) (auto split: if_splits)

lemma resolve_target_in_keys: "resolve_target tai a = Some t \<Longrightarrow> t \<in> fst ` set tai"
  by (force simp: resolve_target_def dest!: find_Some_mem)

lemma resolve_target_first:
  assumes "sorted (map fst tai)" and "distinct (map fst tai)"
  shows "resolve_target tai a = Some t \<longleftrightarrow>
           (\<exists>i. (t, i) \<in> set tai \<and> covers a (t, i)) \<and> (\<forall>e\<in>set tai. covers a e \<longrightarrow> t \<le> fst e)"
  using assms
proof (induction tai)
  case Nil
  then show ?case by (simp add: resolve_target_def)
next
  case (Cons kv rest)
  obtain k v where kv: "kv = (k, v)" by (cases kv)
  from Cons.prems have s: "sorted (map fst rest)" and d: "distinct (map fst rest)"
    and least: "\<forall>e\<in>set rest. k \<le> fst e" and fresh: "k \<notin> fst ` set rest"
    by (auto simp: kv)
  note IH = Cons.IH [OF s d]
  show ?case
  proof (cases "covers a (k, v)")
    case True
    then have r: "resolve_target (kv # rest) a = Some k"
      by (simp add: resolve_target_def kv)
    show ?thesis
    proof
      assume "resolve_target (kv # rest) a = Some t"
      with r have "t = k" by simp
      with True least show "(\<exists>i. (t, i) \<in> set (kv # rest) \<and> covers a (t, i))
          \<and> (\<forall>e\<in>set (kv # rest). covers a e \<longrightarrow> t \<le> fst e)"
        by (auto simp: kv)
    next
      assume rhs: "(\<exists>i. (t, i) \<in> set (kv # rest) \<and> covers a (t, i))
          \<and> (\<forall>e\<in>set (kv # rest). covers a e \<longrightarrow> t \<le> fst e)"
      then have "t \<le> k" using True by (auto simp: kv)
      moreover from rhs have "t = k \<or> t \<in> fst ` set rest" by (force simp: kv)
      ultimately have "t = k" using least fresh by force
      with r show "resolve_target (kv # rest) a = Some t" by simp
    qed
  next
    case False
    then have "resolve_target (kv # rest) a = resolve_target rest a"
      by (simp add: resolve_target_def kv)
    with IH False show ?thesis by (auto simp: kv)
  qed
qed

text \<open>
  C1. The panels are scanned in the lexicographic order of the group keys; the resolver
  returns the first type whose inclusive range \<open>[min_ref, max_ref]\<close> contains the address,
  that is the least such key, and \<open>None\<close> exactly when no range contains it.  With A on
  \<open>[0, 10]\<close> and B on \<open>[5, 15]\<close>, address 7 resolves to A.
\<close>

theorem resolver_first_match:
  "map fst (cv_type_axes_info pos cps) = sorted_list_of_set (type ` set cps)
   \<and> map fst (vis_type_axes_info pos vcps) = sorted_list_of_set (v_type ` set vcps)
   \<and> ((t, i) \<in> set (cv_type_axes_info pos cps) \<longrightarrow>
         (ai_min i, ai_max i) = get_ref_range (lookup_caps (cv_type_caps cps) t))
   \<and> ((t, i) \<in> set (vis_type_axes_info pos vcps) \<longrightarrow>
         (ai_min i, ai_max i) = get_reference_range (lookup_caps (vis_type_caps vcps) t))
   \<and> (tai = cv_type_axes_info pos cps \<or> tai = vis_type_axes_info pos vcps \<longrightarrow>
         (resolve_target tai a = None \<longleftrightarrow>
            (\<forall>(t', i') \<in> set tai. \<not> (ai_min i' \<le> a \<and> a \<le> ai_max i')))
         \<and> (resolve_target tai a = Some t \<longleftrightarrow>
              (\<exists>i. (t, i) \<in> set tai \<and> ai_min i \<le> a \<and> a \<le> ai_max i)
              \<and> (\<forall>(t', i') \<in> set tai. ai_min i' \<le> a \<and> a \<le> ai_max i' \<longrightarrow> t \<le> t')))
   \<and> resolve_target [(''A'', \<lparr>ai_min = 0, ai_max = 10, center_x = c\<rparr>),
                      (''B'', \<lparr>ai_min = 5, ai_max = 15, center_x = c'\<rparr>)] 7 = Some ''A''"
proof -
  have 1: "map fst (cv_type_axes_info pos cps) = sorted_list_of_set (type ` set cps)"
    by (simp add: cv_types_eq)
  have 2: "map fst (vis_type_axes_info pos vcps) = sorted_list_of_set (v_type ` set vcps)"
    by (simp add: vis_types_eq)
  have 3: "(t, i) \<in> set (cv_type_axes_info pos cps) \<longrightarrow>
         (ai_min i, ai_max i) = get_ref_range (lookup_caps (cv_type_caps cps) t)"
    using range_of_entry [OF cv_tai_ranges] by blast
  have 4: "(t, i) \<in> set (vis_type_axes_info pos vcps) \<longrightarrow>
         (ai_min i, ai_max i) = get_reference_range (lookup_caps (vis_type_caps vcps) t)"
    using range_of_entry [OF vis_tai_ranges] by blast
  have 5: "(resolve_target tai a = None \<longleftrightarrow>
            (\<forall>(t', i') \<in> set tai. \<not> (ai_min i' \<le> a \<and> a \<le> ai_max i')))
         \<and> (resolve_target tai a = Some t \<longleftrightarrow>
              (\<exists>i. (t, i) \<in> set tai \<and> ai_min i \<le> a \<and> a \<le> ai_max i)
              \<and> (\<forall>(t', i') \<in> set tai. ai_min i' \<le> a \<and> a \<le> ai_max i' \<longrightarrow> t \<le> t'))"
    if "tai = cv_type_axes_info pos cps \<or> tai = vis_type_axes_info pos vcps"
  proof -
    from that have sd: "sorted (map fst tai)" "distinct (map fst tai)" by auto
    have n: "resolve_target tai a = None \<longleftrightarrow>
            (\<forall>(t', i') \<in> set tai. \<not> (ai_min i' \<le> a \<and> a \<le> ai_max i'))"
      by (auto simp: resolve_target_None covers_def)
    have s: "resolve_target tai a = Some t \<longleftrightarrow>
              (\<exists>i. (t, i) \<in> set tai \<and> ai_min i \<le> a \<and> a \<le> ai_max i)
              \<and> (\<forall>(t', i') \<in> set tai. ai_min i' \<le> a \<and> a \<le> ai_max i' \<longrightarrow> t \<le> t')"
      unfolding resolve_target_first [OF sd] by (auto simp: covers_def)
    from n s show ?thesis by blast
  qed
  have 6: "resolve_target [(''A'', \<lparr>ai_min = 0, ai_max = 10, center_x = c\<rparr>),
                      (''B'', \<lparr>ai_min = 5, ai_max = 15, center_x = c'\<rparr>)] 7 = Some ''A''"
    by (simp add: resolve_target_def covers_def)
  from 1 2 3 4 5 6 show ?thesis by blast
qed

lemma cv_tai_example:
  "cv_type_axes_info (\<lambda>i. (of_nat i, of_nat i + 1))
     [\<lparr>address = JStr ''7'', reference = Some 5, type = ''B''\<rparr>,
      \<lparr>address = JStr ''x'', reference = Some 0, type = ''A''\<rparr>,
      \<lparr>address = JStr ''20'', reference = Some 15, type = ''B''\<rparr>,
      \<lparr>address = JStr '''', reference = Some 10, type = ''A''\<rparr>]
   = [(''A'', \<lparr>ai_min = 0, ai_max = 10, center_x = 1 / 2\<rparr>),
      (''B'', \<lparr>ai_min = 5, ai_max = 15, center_x = 3 / 2\<rparr>)]"
  by (simp add: cv_type_axes_info_def cv_type_info_def cv_types_def cv_type_caps_def cv_group_def
      lookup_caps_def sorted_reverse_def ref_key_def cv_info_of_def get_ref_range_def
      List.map_filter_simps calc_height_def MAX_SUBPLOT_HEIGHT_def upt_rec)

theorem resolver_first_match_witness:
  "resolve_target
     (cv_type_axes_info (\<lambda>i. (of_nat i, of_nat i + 1))
        [\<lparr>address = JStr ''7'', reference = Some 5, type = ''B''\<rparr>,
         \<lparr>address = JStr ''x'', reference = Some 0, type = ''A''\<rparr>,
         \<lparr>address = JStr ''20'', reference = Some 15, type = ''B''\<rparr>,
         \<lparr>address = JStr '''', reference = Some 10, type = ''A''\<rparr>]) 7 = Some ''A''
   \<and> resolve_target
     (cv_type_axes_info (\<lambda>i. (of_nat i, of_nat i + 1))
        [\<lparr>address = JStr ''7'', reference = Some 5, type = ''B''\<rparr>,
         \<lparr>address = JStr ''x'', reference = Some 0, type = ''A''\<rparr>,
         \<lparr>address = JStr ''20'', reference = Some 15, type = ''B''\<rparr>,
         \<lparr>address = JStr '''', reference = Some 10, type = ''A''\<rparr>]) 20 = None"
  using resolver_first_match [of "\<lambda>i. (of_nat i, of_nat i + 1)"
        "[\<lparr>address = JStr ''7'', reference = Some 5, type = ''B''\<rparr>,
          \<lparr>address = JStr ''x'', reference = Some 0, type = ''A''\<rparr>,
          \<lparr>address = JStr ''20'', reference = Some 15, type = ''B''\<rparr>,
          \<lparr>address = JStr '''', reference = Some 10, type = ''A''\<rparr>]"
        "[]" "''A''" "\<lparr>ai_min = 0, ai_max = 10, center_x = 1 / 2\<rparr>"
        "[(''A'', \<lparr>ai_min = 0, ai_max = 10, center_x = 1 / 2\<rparr>),
          (''B'', \<lparr>ai_min = 5, ai_max = 15, center_x = 3 / 2\<rparr>)]" 7 0 0]
    resolver_first_match [of "\<lambda>i. (of_nat i, of_nat i + 1)"
        "[\<lparr>address = JStr ''7'', reference = Some 5, type = ''B''\<rparr>,
          \<lparr>address = JStr ''x'', reference = Some 0, type = ''A''\<rparr>,
          \<lparr>address = JStr ''20'', reference = Some 15, type = ''B''\<rparr>,
          \<lparr>address = JStr '''', reference = Some 10, type = ''A''\<rparr>]"
        "[]" "''A''" "\<lparr>ai_min = 0, ai_max = 10, center_x = 1 / 2\<rparr>"
        "[(''A'', \<lparr>ai_min = 0, ai_max = 10, center_x = 1 / 2\<rparr>),
          (''B'', \<lparr>ai_min = 5, ai_max = 15, center_x = 3 / 2\<rparr>)]" 20 0 0]
  by (simp add: cv_tai_example)

section \<open>Empty memory blocks\<close>

lemma cv_drawn_rows_ys:
  "snd ` set (cv_drawn_rows (cv_info_of cs)) = {r. \<exists>c\<in>set cs. reference c = Some r}"
  by (force simp: cv_drawn_rows_eq set_map_filter)

lemma cv_empty_length:
  "length (cv_empty (cv_info_of cs)) =
     nat (max_ref (cv_info_of cs) - min_ref (cv_info_of cs) + 1)
       - card {r. \<exists>c\<in>set cs. reference c = Some r}"
  unfolding cv_empty_def
  using length_empty_addresses [OF cv_occupied_subset [of cs]] by (simp only: cv_occupied)

lemma vis_empty_length:
  "length (vis_empty (vis_info_of cs)) =
     nat (vmax (vis_info_of cs) - vmin (vis_info_of cs) + 1) - card (v_reference ` set cs)"
  unfolding vis_empty_def
  using length_empty_addresses [OF vis_occupied_subset [of cs]] by (simp only: vis_occupied)

lemma vis_drawn_rows_eq:
  "vis_drawn_rows (vy_positions (vis_info_of cs)) cs = Inr (map (\<lambda>c. (c, v_reference c)) cs)"
proof -
  have "set ds \<subseteq> set cs \<Longrightarrow>
          vis_drawn_rows (vy_positions (vis_info_of cs)) ds = Inr (map (\<lambda>c. (c, v_reference c)) ds)" for ds
  proof (induction ds)
    case Nil
    then show ?case by simp
  next
    case (Cons d ds)
    then have "d \<in> set cs" by simp
    then have "map_of (map (\<lambda>c. (v_reference c, v_reference c)) cs) (v_reference d) = Some (v_reference d)"
      by (induction cs) auto
    with Cons show ?case by (simp add: dict_index_def)
  qed
  then show ?thesis by simp
qed

text \<open>
  C6. The empty memory blocks of a panel are the integers of \<open>[min_ref, max_ref]\<close> that
  are not the reference (the row) of a drawn capability, each once, in ascending order;
  their number is the size of the range minus the number of occupied rows.  A panel on
  \<open>[0, 9]\<close> with 3 occupied rows gets 7 blocks.
\<close>

theorem empty_slots:
  "set (cv_empty (cv_info_of cs))
     = {min_ref (cv_info_of cs) .. max_ref (cv_info_of cs)} - snd ` set (cv_drawn_rows (cv_info_of cs))
   \<and> snd ` set (cv_drawn_rows (cv_info_of cs)) = {r. \<exists>c\<in>set cs. reference c = Some r}
   \<and> distinct (cv_empty (cv_info_of cs)) \<and> sorted (cv_empty (cv_info_of cs))
   \<and> length (cv_empty (cv_info_of cs))
       = nat (max_ref (cv_info_of cs) - min_ref (cv_info_of cs) + 1)
           - card (snd ` set (cv_drawn_rows (cv_info_of cs)))
   \<and> (min_ref (cv_info_of cs) = 0 \<and> max_ref (cv_info_of cs) = 9
        \<and> card (snd ` set (cv_drawn_rows (cv_info_of cs))) = 3
        \<longrightarrow> length (cv_empty (cv_info_of cs)) = 7)
   \<and> vis_drawn_rows (vy_positions (vis_info_of vs)) vs = Inr (map (\<lambda>c. (c, v_reference c)) vs)
   \<and> set (vis_empty (vis_info_of vs))
       = {vmin (vis_info_of vs) .. vmax (vis_info_of vs)} - v_reference ` set vs
   \<and> distinct (vis_empty (vis_info_of vs)) \<and> sorted (vis_empty (vis_info_of vs))
   \<and> length (vis_empty (vis_info_of vs))
       = nat (vmax (vis_info_of vs) - vmin (vis_info_of vs) + 1) - card (v_reference ` set vs)
   \<and> (vmin (vis_info_of vs) = 0 \<and> vmax (vis_info_of vs) = 9 \<and> card (v_reference ` set vs) = 3
        \<longrightarrow> length (vis_empty (vis_info_of vs)) = 7)"
proof -
  have 1: "set (cv_empty (cv_info_of cs))
     = {min_ref (cv_info_of cs) .. max_ref (cv_info_of cs)} - snd ` set (cv_drawn_rows (cv_info_of cs))"
    unfolding cv_drawn_rows_ys cv_empty_def set_empty_addresses cv_occupied ..
  have 2: "length (cv_empty (cv_info_of cs))
       = nat (max_ref (cv_info_of cs) - min_ref (cv_info_of cs) + 1)
           - card (snd ` set (cv_drawn_rows (cv_info_of cs)))"
    unfolding cv_drawn_rows_ys by (rule cv_empty_length)
  have 3: "distinct (cv_empty (cv_info_of cs)) \<and> sorted (cv_empty (cv_info_of cs))"
    unfolding cv_empty_def by simp
  have 4: "set (vis_empty (vis_info_of vs))
       = {vmin (vis_info_of vs) .. vmax (vis_info_of vs)} - v_reference ` set vs"
    unfolding vis_empty_def set_empty_addresses vis_occupied ..
  have 5: "distinct (vis_empty (vis_info_of vs)) \<and> sorted (vis_empty (vis_info_of vs))"
    unfolding vis_empty_def by simp
  note 6 = vis_empty_length [of vs] and 7 = vis_drawn_rows_eq [of vs] and 8 = cv_drawn_rows_ys [of cs]
  from 2 have 9: "min_ref (cv_info_of cs) = 0 \<and> max_ref (cv_info_of cs) = 9
        \<and> card (snd ` set (cv_drawn_rows (cv_info_of cs))) = 3
        \<longrightarrow> length (cv_empty (cv_info_of cs)) = 7"
    by simp
  from 6 have 10: "vmin (vis_info_of vs) = 0 \<and> vmax (vis_info_of vs) = 9 \<and> card (v_reference ` set vs) = 3
        \<longrightarrow> length (vis_empty (vis_info_of vs)) = 7"
    by simp
  from 1 2 3 4 5 6 7 8 9 10 show ?thesis by blast
qed

theorem empty_slots_witness:
  "cv_empty (cv_info_of [\<lparr>address = JStr ''1'', reference = Some 9, type = ''A''\<rparr>,
                         \<lparr>address = JStr ''2'', reference = Some 4, type = ''A''\<rparr>,
                         \<lparr>address = JStr ''3'', reference = None, type = ''A''\<rparr>,
                         \<lparr>address = JStr ''4'', reference = Some 0, type = ''A''\<rparr>])
     = [1, 2, 3, 5, 6, 7, 8]
   \<and> length (cv_empty (cv_info_of [\<lparr>address = JStr ''1'', reference = Some 9, type = ''A''\<rparr>,
                         \<lparr>address = JStr ''2'', reference = Some 4, type = ''A''\<rparr>,
                         \<lparr>address = JStr ''3'', reference = None, type = ''A''\<rparr>,
                         \<lparr>address = JStr ''4'', reference = Some 0, type = ''A''\<rparr>])) = 7
   \<and> length (vis_empty (vis_info_of [\<lparr>v_address = JStr ''1'', v_reference = 9, v_type = ''A''\<rparr>,
                         \<lparr>v_address = JStr ''2'', v_reference = 4, v_type = ''A''\<rparr>,
                         \<lparr>v_address = JStr ''4'', v_reference = 0, v_type = ''A''\<rparr>])) = 7"
proof -
  let ?cs = "[\<lparr>address = JStr ''1'', reference = Some 9, type = ''A''\<rparr>,
              \<lparr>address = JStr ''2'', reference = Some 4, type = ''A''\<rparr>,
              \<lparr>address = JStr ''3'', reference = None, type = ''A''\<rparr>,
              \<lparr>address = JStr ''4'', reference = Some 0, type = ''A''\<rparr>]"
  let ?vs = "[\<lparr>v_address = JStr ''1'', v_reference = 9, v_type = ''A''\<rparr>,
              \<lparr>v_address = JStr ''2'', v_reference = 4, v_type = ''A''\<rparr>,
              \<lparr>v_address = JStr ''4'', v_reference = 0, v_type = ''A''\<rparr>]"
  have r: "get_ref_range ?cs = (0, 9)" "get_reference_range ?vs = (0, 9)"
    by (simp_all add: get_ref_range_def get_reference_range_def List.map_filter_simps)
  have rows: "snd ` set (cv_drawn_rows (cv_info_of ?cs)) = {9, 4, 0}"
    by (simp add: cv_drawn_rows_eq List.map_filter_simps)
  have e: "cv_empty (cv_info_of ?cs) = [1, 2, 3, 5, 6, 7, 8]"
    unfolding cv_empty_def
    using empty_addresses_code [of 0 9 "[9, 4, 0]"]
    by (simp add: r List.map_filter_simps upto_rec1)
  from empty_slots [of ?cs ?vs] r rows e show ?thesis
    by simp
qed

section \<open>Arrow routing\<close>


lemma cv_arrow_SomeD:
  assumes "cv_arrow int_str tai ti typ cap u = Inr (Some arr)"
  shows "\<exists>r a info. reference cap = Some r \<and> map_of ti typ = Some info
           \<and> getAddress int_str cap = Inr (Some a)
           \<and> resolve_target tai a = Some (tgt_type arr) \<and> tgt_type arr \<noteq> []
           \<and> src_type arr = typ
           \<and> snd (src_pt arr) = of_int (dict_get (y_positions info) r r) + 1 / 2
           \<and> snd (tgt_pt arr) = of_int a + u
           \<and> (tgt_type arr = typ \<longrightarrow>
                 (a < r \<longrightarrow> fst (src_pt arr) = -2 \<and> fst (tgt_pt arr) = -2
                            \<and> style arr = Arc3_rad (3 / 10))
               \<and> (\<not> a < r \<longrightarrow> fst (src_pt arr) = x_max + 1 \<and> fst (tgt_pt arr) = x_max + 1
                            \<and> style arr = Arc3_rad (- (3 / 10))))
           \<and> (tgt_type arr \<noteq> typ \<longrightarrow>
                 (\<exists>s t. map_of tai typ = Some s \<and> map_of tai (tgt_type arr) = Some t
                   \<and> style arr = Arc3
                   \<and> (center_x s < center_x t \<longrightarrow>
                         fst (src_pt arr) = x_max \<and> fst (tgt_pt arr) = x_min)
                   \<and> (\<not> center_x s < center_x t \<longrightarrow>
                         fst (src_pt arr) = x_min \<and> fst (tgt_pt arr) = x_max)))"
  using assms
  by (auto simp: cv_arrow_def mk_arrow_def Let_def
      split: option.splits sum.splits if_splits)






lemma mk_arrow_sel [simp]:
  "src_type (mk_arrow typ t sx sy tx ty st) = typ"
  "tgt_type (mk_arrow typ t sx sy tx ty st) = t"
  "src_pt (mk_arrow typ t sx sy tx ty st) = (sx, sy + 1 / 2)"
  "tgt_pt (mk_arrow typ t sx sy tx ty st) = (tx, ty)"
  "style (mk_arrow typ t sx sy tx ty st) = st"
  by (simp_all add: mk_arrow_def)



lemma cv_type_info_length [simp]: "length (cv_type_info cps) = length (cv_types cps)"
  by (simp add: cv_type_info_def)

lemma vis_type_info_length [simp]: "length (vis_type_info cps) = length (vis_types cps)"
  by (simp add: vis_type_info_def)





section \<open>Groups without references\<close>

lemma cv_group_referenceless:
  assumes "\<forall>c\<in>set cps. type c = t \<longrightarrow> reference c = None"
  shows "get_ref_range (lookup_caps (cv_type_caps cps) t) = (0, 1)"
proof (rule get_ref_range_none)
  show "\<forall>c\<in>set (lookup_caps (cv_type_caps cps) t). reference c = None"
    using assms by (auto simp: cv_lookup_caps split: if_splits)
qed

lemma key_entry: "t \<in> set (map fst tai) \<Longrightarrow> \<exists>i. (t, i) \<in> set tai"
  by auto


lemma cv_resolve_referenceless:
  assumes t: "t \<in> type ` set cps"
    and none: "\<forall>c\<in>set cps. type c = t \<longrightarrow> reference c = None"
    and a: "a = 0 \<or> a = 1"
    and first: "\<forall>(t', i') \<in> set (cv_type_axes_info pos cps).
                  t' < t \<longrightarrow> \<not> (ai_min i' \<le> a \<and> a \<le> ai_max i')"
  shows "resolve_target (cv_type_axes_info pos cps) a = Some t"
proof -
  let ?tai = "cv_type_axes_info pos cps"
  have s: "sorted (map fst ?tai)" by simp
  have d: "distinct (map fst ?tai)" by simp
  from t have "t \<in> set (map fst ?tai)" by simp
  then obtain i where i: "(t, i) \<in> set ?tai" by (rule key_entry [THEN exE])
  have "(ai_min i, ai_max i) = get_ref_range (lookup_caps (cv_type_caps cps) t)"
    by (rule range_of_entry [OF cv_tai_ranges i])
  then have "ai_min i = 0 \<and> ai_max i = 1"
    by (simp add: cv_group_referenceless [OF none])
  with a have c: "covers a (t, i)" by (auto simp: covers_def)
  have m: "\<forall>e\<in>set ?tai. covers a e \<longrightarrow> t \<le> fst e"
  proof (intro ballI impI)
    fix e assume e: "e \<in> set ?tai" and ce: "covers a e"
    obtain t' i' where p: "e = (t', i')" by (cases e)
    from first e p have "t' < t \<longrightarrow> \<not> (ai_min i' \<le> a \<and> a \<le> ai_max i')" by blast
    with ce p have "\<not> t' < t" by (auto simp: covers_def)
    then show "t \<le> fst e" by (simp add: p)
  qed
  have "(\<exists>i. (t, i) \<in> set ?tai \<and> covers a (t, i)) \<and> (\<forall>e\<in>set ?tai. covers a e \<longrightarrow> t \<le> fst e)"
    using i c m by blast
  then show ?thesis using resolve_target_first [OF s d, of a t] by blast
qed

lemma example_capabilities:
  "capabilities decimal [\<lparr>Type = Some ''A'', Reference = Some (JInt 5), Address = Some (JStr ''0''), Labels = Map.empty\<rparr>,
                 \<lparr>Type = Some ''B'', Reference = None, Address = None, Labels = Map.empty\<rparr>]
     = Inr [\<lparr>address = JStr ''0'', reference = Some 5, type = ''A''\<rparr>,
            \<lparr>address = JStr [], reference = None, type = ''B''\<rparr>]"
  by (simp add: Capability_def to_int_def)

lemma example_type_info:
  "cv_type_info [\<lparr>address = JStr ''0'', reference = Some 5, type = ''A''\<rparr>,
                 \<lparr>address = JStr [], reference = None, type = ''B''\<rparr>]
     = [(''A'', \<lparr>min_ref = 5, max_ref = 5, height = 6,
                  caps = [\<lparr>address = JStr ''0'', reference = Some 5, type = ''A''\<rparr>],
                  y_positions = [(5, 5)]\<rparr>),
        (''B'', \<lparr>min_ref = 0, max_ref = 1, height = 6,
                  caps = [\<lparr>address = JStr [], reference = None, type = ''B''\<rparr>],
                  y_positions = []\<rparr>)]"
  by (simp add: cv_type_info_def cv_types_def cv_type_caps_def cv_group_def
      lookup_caps_def sorted_reverse_def ref_key_def cv_info_of_def get_ref_range_def
      List.map_filter_simps calc_height_def MAX_SUBPLOT_HEIGHT_def)

lemma example_types:
  "cv_types [\<lparr>address = JStr ''0'', reference = Some 5, type = ''A''\<rparr>,
             \<lparr>address = JStr [], reference = None, type = ''B''\<rparr>] = [''A'', ''B'']"
  by (simp add: cv_types_def cv_type_caps_def cv_group_def)

lemma example_tai:
  "cv_type_axes_info pos [\<lparr>address = JStr ''0'', reference = Some 5, type = ''A''\<rparr>,
                          \<lparr>address = JStr [], reference = None, type = ''B''\<rparr>]
     = [(''A'', \<lparr>ai_min = 5, ai_max = 5, center_x = (fst (pos 0) + snd (pos 0)) / 2\<rparr>),
        (''B'', \<lparr>ai_min = 0, ai_max = 1, center_x = (fst (pos 1) + snd (pos 1)) / 2\<rparr>)]"
  by (simp add: cv_type_axes_info_def example_type_info upt_rec)

lemma example_arrow:
  "map_sum id (map_option tgt_type)
     (cv_arrow decimal [(''A'', \<lparr>ai_min = 5, ai_max = 5, center_x = ca\<rparr>),
                (''B'', \<lparr>ai_min = 0, ai_max = 1, center_x = cb\<rparr>)]
        [(''A'', \<lparr>min_ref = 5, max_ref = 5, height = 6,
                  caps = [\<lparr>address = JStr ''0'', reference = Some 5, type = ''A''\<rparr>],
                  y_positions = [(5, 5)]\<rparr>),
        (''B'', \<lparr>min_ref = 0, max_ref = 1, height = 6,
                  caps = [\<lparr>address = JStr [], reference = None, type = ''B''\<rparr>],
                  y_positions = []\<rparr>)]
        ''A'' \<lparr>address = JStr ''0'', reference = Some 5, type = ''A''\<rparr> u)
    = Inr (Some ''B'')"
  by (simp add: cv_arrow_def getAddress_def to_int_def decimal_def strip_def is_space_def
      digit_val_def resolve_target_def covers_def Let_def)


lemma example_arrows:
  "\<exists>arr. cv_arrows_types decimal
     [(''A'', \<lparr>ai_min = 5, ai_max = 5, center_x = ca\<rparr>),
      (''B'', \<lparr>ai_min = 0, ai_max = 1, center_x = cb\<rparr>)]
     [(''A'', \<lparr>min_ref = 5, max_ref = 5, height = 6,
               caps = [\<lparr>address = JStr ''0'', reference = Some 5, type = ''A''\<rparr>],
               y_positions = [(5, 5)]\<rparr>),
      (''B'', \<lparr>min_ref = 0, max_ref = 1, height = 6,
               caps = [\<lparr>address = JStr [], reference = None, type = ''B''\<rparr>],
               y_positions = []\<rparr>)]
     [''A'', ''B''] rnd 0 = Inr ([arr], 1) \<and> tgt_type arr = ''B'' \<and> src_type arr = ''A''"
  by (simp add: cv_arrow_def getAddress_def to_int_def decimal_def strip_def is_space_def
      digit_val_def resolve_target_def covers_def Let_def)

lemma example_main:
  "map_sum id (\<lambda>fig. (map tgt_type (fig_arrows fig), map_of (fig_rows fig) ''B'',
                       map_of (fig_empty fig) ''B''))
     (cv_main decimal pos rnd
        [\<lparr>Type = Some ''A'', Reference = Some (JInt 5), Address = Some (JStr ''0''), Labels = Map.empty\<rparr>,
         \<lparr>Type = Some ''B'', Reference = None, Address = None, Labels = Map.empty\<rparr>])
   = Inr ([''B''], Some [], Some [0, 1])"
proof -
  have e: "empty_addresses 0 1 {} = [0, 1]"
    using empty_addresses_code [of 0 1 "[]"] by (simp add: upto_rec1)
  obtain arr where a: "cv_arrows_types decimal
     [(''A'', \<lparr>ai_min = 5, ai_max = 5, center_x = (fst (pos 0) + snd (pos 0)) / 2\<rparr>),
      (''B'', \<lparr>ai_min = 0, ai_max = 1, center_x = (fst (pos 1) + snd (pos 1)) / 2\<rparr>)]
     [(''A'', \<lparr>min_ref = 5, max_ref = 5, height = 6,
               caps = [\<lparr>address = JStr ''0'', reference = Some 5, type = ''A''\<rparr>],
               y_positions = [(5, 5)]\<rparr>),
      (''B'', \<lparr>min_ref = 0, max_ref = 1, height = 6,
               caps = [\<lparr>address = JStr [], reference = None, type = ''B''\<rparr>],
               y_positions = []\<rparr>)]
     [''A'', ''B''] rnd 0 = Inr ([arr], 1)" and b: "tgt_type arr = ''B''"
    using example_arrows by blast
  show ?thesis
    apply (simp only: cv_main_def example_capabilities Let_def example_type_info example_tai
        example_types a sum.case prod.case)
    apply (simp add: b cv_drawn_rows_def cv_empty_def e List.map_filter_simps)
    done
qed


lemma cv_drawn_rows_referenceless:
  "\<forall>c\<in>set g. reference c = None \<Longrightarrow> cv_drawn_rows (cv_info_of g) = []"
  by (simp add: cv_drawn_rows_eq List.map_filter_def filter_empty_conv)

lemma cv_group_drawn_rows_referenceless:
  assumes "\<forall>c\<in>set cps. type c = t \<longrightarrow> reference c = None"
  shows "cv_drawn_rows (cv_info_of (lookup_caps (cv_type_caps cps) t)) = []"
proof (rule cv_drawn_rows_referenceless)
  show "\<forall>c\<in>set (lookup_caps (cv_type_caps cps) t). reference c = None"
    using assms by (auto simp: cv_lookup_caps split: if_splits)
qed

text \<open>
  C10. In CapabilityClassVis.py a group none of whose members has a reference (the empty
  list included) gets the range \<open>[0, 1]\<close>.  So the resolver sends address 0 or 1 to such a
  group whenever no lexicographically earlier type covers the address, although the panel
  of that group draws no capability row; in the example the capability of panel A
  (reference 5, address 0) gets an arrow into panel B, which draws no row and two empty
  blocks.
\<close>

theorem referenceless_group_range:
  "((\<forall>c\<in>set cs. reference c = None) \<longrightarrow> get_ref_range cs = (0, 1))
   \<and> (t \<in> type ` set cps \<and> (\<forall>c\<in>set cps. type c = t \<longrightarrow> reference c = None)
        \<and> (a = 0 \<or> a = 1)
        \<and> (\<forall>(t', i') \<in> set (cv_type_axes_info pos cps).
               t' < t \<longrightarrow> \<not> (ai_min i' \<le> a \<and> a \<le> ai_max i'))
        \<longrightarrow> resolve_target (cv_type_axes_info pos cps) a = Some t
            \<and> cv_drawn_rows (cv_info_of (lookup_caps (cv_type_caps cps) t)) = [])
   \<and> map_sum id (\<lambda>fig. (map tgt_type (fig_arrows fig), map_of (fig_rows fig) ''B'',
                       map_of (fig_empty fig) ''B''))
       (cv_main decimal pos rnd
          [\<lparr>Type = Some ''A'', Reference = Some (JInt 5), Address = Some (JStr ''0''), Labels = Map.empty\<rparr>,
           \<lparr>Type = Some ''B'', Reference = None, Address = None, Labels = Map.empty\<rparr>])
     = Inr ([''B''], Some [], Some [0, 1])"
proof -
  have 1: "(\<forall>c\<in>set cs. reference c = None) \<longrightarrow> get_ref_range cs = (0, 1)"
    using get_ref_range_none by blast
  have 2: "t \<in> type ` set cps \<and> (\<forall>c\<in>set cps. type c = t \<longrightarrow> reference c = None)
        \<and> (a = 0 \<or> a = 1)
        \<and> (\<forall>(t', i') \<in> set (cv_type_axes_info pos cps).
               t' < t \<longrightarrow> \<not> (ai_min i' \<le> a \<and> a \<le> ai_max i'))
        \<longrightarrow> resolve_target (cv_type_axes_info pos cps) a = Some t
            \<and> cv_drawn_rows (cv_info_of (lookup_caps (cv_type_caps cps) t)) = []"
    using cv_resolve_referenceless [of t cps a pos] cv_group_drawn_rows_referenceless [of cps t]
    by blast
  note 3 = example_main [of pos rnd]
  from 1 2 3 show ?thesis by blast
qed

theorem referenceless_group_range_witness:
  "get_ref_range [\<lparr>address = JStr [], reference = None, type = ''B''\<rparr>] = (0, 1)
   \<and> get_ref_range [] = (0, 1)
   \<and> resolve_target
        (cv_type_axes_info (\<lambda>i. (of_nat i, of_nat i + 1))
           [\<lparr>address = JStr ''0'', reference = Some 5, type = ''A''\<rparr>,
            \<lparr>address = JStr [], reference = None, type = ''B''\<rparr>]) 0 = Some ''B''
   \<and> cv_drawn_rows (cv_info_of (lookup_caps (cv_type_caps
           [\<lparr>address = JStr ''0'', reference = Some 5, type = ''A''\<rparr>,
            \<lparr>address = JStr [], reference = None, type = ''B''\<rparr>]) ''B'')) = []"
  using referenceless_group_range [of "[\<lparr>address = JStr [], reference = None, type = ''B''\<rparr>]"
      "''B''" "[\<lparr>address = JStr ''0'', reference = Some 5, type = ''A''\<rparr>,
                \<lparr>address = JStr [], reference = None, type = ''B''\<rparr>]" 0
      "\<lambda>i. (of_nat i, of_nat i + 1)" "\<lambda>k. 1 / 10"]
    referenceless_group_range [of "[]" "''B''" "[]" 0 "\<lambda>i. (of_nat i, of_nat i + 1)" "\<lambda>k. 1 / 10"]
  by (simp add: example_tai)

section \<open>Members without reference\<close>

lemma cv_drawn_rows_caps:
  "map fst (cv_drawn_rows (cv_info_of g)) = filter (\<lambda>c. reference c \<noteq> None) g"
  unfolding cv_drawn_rows_eq
  by (induction g) (auto simp: List.map_filter_simps split: option.splits)

lemma descending_positions:
  assumes s: "sorted (rev (map ref_key g))"
    and i: "i < length g" and j: "j < length g"
    and n: "reference (g ! i) = None" and r: "reference (g ! j) = Some r" and p: "0 \<le> r"
  shows "j < i"
proof (rule ccontr)
  assume "\<not> j < i"
  then have le: "i \<le> j" by simp
  from s have "\<forall>a b. a \<le> b \<longrightarrow> b < length (map ref_key g) \<longrightarrow> map ref_key g ! b \<le> map ref_key g ! a"
    by (simp only: sorted_rev_iff_nth_mono)
  with le j have "map ref_key g ! j \<le> map ref_key g ! i" by simp
  with i j have "ref_key (g ! j) \<le> ref_key (g ! i)" by simp
  with n r p show False by (simp add: ref_key_def)
qed

lemma cv_type_info_lookup:
  "t \<in> type ` set cps \<Longrightarrow>
     map_of (cv_type_info cps) t = Some (cv_info_of (lookup_caps (cv_type_caps cps) t))"
  by (simp add: cv_type_info_def map_of_map_restrict)

lemma cv_arrow_no_reference: "reference cap = None \<Longrightarrow> cv_arrow int_str tai ti t cap u = Inr None"
  by (simp add: cv_arrow_def)

lemma cv_group_members:
  "t \<in> type ` set cps \<Longrightarrow>
     mset (lookup_caps (cv_type_caps cps) t) = mset (filter (\<lambda>c. type c = t) cps)
     \<and> sorted (rev (map ref_key (lookup_caps (cv_type_caps cps) t)))"
  by (simp add: cv_lookup_caps sorted_reverse_descending)

lemma example_group_sorted:
  "lookup_caps (cv_type_caps [\<lparr>address = JStr ''7'', reference = None, type = ''A''\<rparr>,
                              \<lparr>address = JStr ''8'', reference = Some 3, type = ''A''\<rparr>]) ''A''
     = [\<lparr>address = JStr ''8'', reference = Some 3, type = ''A''\<rparr>,
        \<lparr>address = JStr ''7'', reference = None, type = ''A''\<rparr>]"
  by (simp add: cv_type_caps_def cv_group_def lookup_caps_def sorted_reverse_def ref_key_def)

text \<open>
  C7 as stated fails: a capability without reference is a member of its group, but the
  drawing loop skips it, so no row is rendered for it.
\<close>

theorem absent_reference_counterexample:
  "Capability decimal \<lparr>Type = Some ''A'', Reference = None, Address = Some (JStr ''7''), Labels = Map.empty\<rparr>
     = Inr \<lparr>address = JStr ''7'', reference = None, type = ''A''\<rparr>
   \<and> lookup_caps (cv_type_caps [\<lparr>address = JStr ''7'', reference = None, type = ''A''\<rparr>,
                              \<lparr>address = JStr ''8'', reference = Some 3, type = ''A''\<rparr>]) ''A''
     = [\<lparr>address = JStr ''8'', reference = Some 3, type = ''A''\<rparr>,
        \<lparr>address = JStr ''7'', reference = None, type = ''A''\<rparr>]
   \<and> cv_drawn_rows (cv_info_of [\<lparr>address = JStr ''8'', reference = Some 3, type = ''A''\<rparr>,
                                 \<lparr>address = JStr ''7'', reference = None, type = ''A''\<rparr>])
     = [(\<lparr>address = JStr ''8'', reference = Some 3, type = ''A''\<rparr>, 3)]"
  by (simp add: example_group_sorted Capability_def to_int_def cv_drawn_rows_eq
      List.map_filter_simps)

text \<open>
  C7, amended.  For each type, the group of CapabilityClassVis.py holds all capabilities
  of that type, in descending order of the key "reference, or -1 when the reference is
  absent"; it is the list the panel's height and its drawing and arrow loops work on.  A
  capability without reference comes after every member with a non-negative reference,
  but the drawing loop draws rows only for the members with a reference, and the arrow
  loop skips it as well.
\<close>

theorem absent_reference_grouping:
  "(t \<in> type ` set cps \<and> g = lookup_caps (cv_type_caps cps) t \<longrightarrow>
      mset g = mset (filter (\<lambda>c. type c = t) cps)
      \<and> sorted (rev (map ref_key g))
      \<and> map_of (cv_type_info cps) t = Some (cv_info_of g)
      \<and> caps (cv_info_of g) = g
      \<and> map fst (cv_drawn_rows (cv_info_of g)) = filter (\<lambda>c. reference c \<noteq> None) g
      \<and> (\<forall>i j r. i < length g \<and> j < length g \<and> reference (g ! i) = None
            \<and> reference (g ! j) = Some r \<and> 0 \<le> r \<longrightarrow> j < i))
   \<and> ref_key c = (case reference c of Some r \<Rightarrow> r | None \<Rightarrow> -1)
   \<and> (reference c = None \<longrightarrow> cv_arrow int_str tai ti t c u = Inr None)"
proof -
  have 1: "mset g = mset (filter (\<lambda>c. type c = t) cps) \<and> sorted (rev (map ref_key g))
      \<and> map_of (cv_type_info cps) t = Some (cv_info_of g)
      \<and> caps (cv_info_of g) = g
      \<and> map fst (cv_drawn_rows (cv_info_of g)) = filter (\<lambda>c. reference c \<noteq> None) g
      \<and> (\<forall>i j r. i < length g \<and> j < length g \<and> reference (g ! i) = None
            \<and> reference (g ! j) = Some r \<and> 0 \<le> r \<longrightarrow> j < i)"
    if t: "t \<in> type ` set cps" and g: "g = lookup_caps (cv_type_caps cps) t"
  proof -
    from cv_group_members [OF t] g
    have a: "mset g = mset (filter (\<lambda>c. type c = t) cps)" and s: "sorted (rev (map ref_key g))"
      by simp_all
    have b: "map_of (cv_type_info cps) t = Some (cv_info_of g)"
      using cv_type_info_lookup [OF t] g by simp
    have c: "caps (cv_info_of g) = g" by simp
    note d = cv_drawn_rows_caps [of g]
    have e: "\<forall>i j r. i < length g \<and> j < length g \<and> reference (g ! i) = None
            \<and> reference (g ! j) = Some r \<and> 0 \<le> r \<longrightarrow> j < i"
      using descending_positions [OF s] by blast
    from a s b c d e show ?thesis by blast
  qed
  have 2: "ref_key c = (case reference c of Some r \<Rightarrow> r | None \<Rightarrow> -1)"
    by (simp add: ref_key_def)
  have 3: "reference c = None \<longrightarrow> cv_arrow int_str tai ti t c u = Inr None"
    using cv_arrow_no_reference by blast
  from 1 2 3 show ?thesis by blast
qed

theorem absent_reference_grouping_witness:
  "mset (lookup_caps (cv_type_caps [\<lparr>address = JStr ''7'', reference = None, type = ''A''\<rparr>,
                              \<lparr>address = JStr ''8'', reference = Some 3, type = ''A''\<rparr>]) ''A'')
     = mset [\<lparr>address = JStr ''7'', reference = None, type = ''A''\<rparr>,
             \<lparr>address = JStr ''8'', reference = Some 3, type = ''A''\<rparr>]
   \<and> map fst (cv_drawn_rows (cv_info_of
         [\<lparr>address = JStr ''8'', reference = Some 3, type = ''A''\<rparr>,
          \<lparr>address = JStr ''7'', reference = None, type = ''A''\<rparr>]))
       = [\<lparr>address = JStr ''8'', reference = Some 3, type = ''A''\<rparr>]
   \<and> cv_arrow decimal [] [] ''A'' \<lparr>address = JStr ''7'', reference = None, type = ''A''\<rparr> 0 = Inr None"
  using absent_reference_grouping [of "''A''"
      "[\<lparr>address = JStr ''7'', reference = None, type = ''A''\<rparr>,
        \<lparr>address = JStr ''8'', reference = Some 3, type = ''A''\<rparr>]"
      "[\<lparr>address = JStr ''8'', reference = Some 3, type = ''A''\<rparr>,
        \<lparr>address = JStr ''7'', reference = None, type = ''A''\<rparr>]"
      "\<lparr>address = JStr ''7'', reference = None, type = ''A''\<rparr>" decimal "[]" "[]" 0]
  by (simp add: example_group_sorted)

section \<open>Two runs on the same input\<close>

lemma cv_arrow_jitter:
  "map_sum id (map_option blank_jitter) (cv_arrow int_str tai ti t cap u)
     = map_sum id (map_option blank_jitter) (cv_arrow int_str tai ti t cap u')"
  by (simp add: cv_arrow_def mk_arrow_def blank_jitter_def Let_def
      split: option.splits sum.splits)

lemma vis_arrow_jitter:
  "map_sum id (map_option blank_jitter) (vis_arrow int_str tai ti t cap u)
     = map_sum id (map_option blank_jitter) (vis_arrow int_str tai ti t cap u')"
  by (simp add: vis_arrow_def mk_arrow_def blank_jitter_def Let_def
      split: option.splits sum.splits)

lemma jitter_cases:
  assumes "map_sum id (map_option f) x = map_sum id (map_option f) y"
  obtains (err) e where "x = Inl e" "y = Inl e"
    | (skip) "x = Inr None" "y = Inr None"
    | (draw) a b where "x = Inr (Some a)" "y = Inr (Some b)" "f a = f b"
  using assms by (cases x; cases y) (auto simp: map_option_case split: option.splits)

lemma cv_arrows_caps_jitter:
  "map_sum id (\<lambda>(as, k). (map blank_jitter as, k)) (cv_arrows_caps int_str tai ti t cs rnd k)
     = map_sum id (\<lambda>(as, k). (map blank_jitter as, k)) (cv_arrows_caps int_str tai ti t cs rnd' k)"
proof (induction cs arbitrary: k)
  case Nil
  show ?case by simp
next
  case (Cons cap cs)
  from cv_arrow_jitter [of int_str tai ti t cap "rnd k" "rnd' k"] show ?case
  proof (cases rule: jitter_cases)
    case (err e)
    then show ?thesis by simp
  next
    case skip
    then show ?thesis using Cons.IH [of k] by simp
  next
    case (draw a b)
    then show ?thesis using Cons.IH [of "Suc k"]
      by (cases "cv_arrows_caps int_str tai ti t cs rnd (Suc k)";
          cases "cv_arrows_caps int_str tai ti t cs rnd' (Suc k)") (auto split: prod.splits)
  qed
qed


lemma vis_arrows_caps_jitter:
  "map_sum id (\<lambda>(as, k). (map blank_jitter as, k)) (vis_arrows_caps int_str tai ti t cs rnd k)
     = map_sum id (\<lambda>(as, k). (map blank_jitter as, k)) (vis_arrows_caps int_str tai ti t cs rnd' k)"
proof (induction cs arbitrary: k)
  case Nil
  show ?case by simp
next
  case (Cons cap cs)
  from vis_arrow_jitter [of int_str tai ti t cap "rnd k" "rnd' k"] show ?case
  proof (cases rule: jitter_cases)
    case (err e)
    then show ?thesis by simp
  next
    case skip
    then show ?thesis using Cons.IH [of k] by simp
  next
    case (draw a b)
    then show ?thesis using Cons.IH [of "Suc k"]
      by (cases "vis_arrows_caps int_str tai ti t cs rnd (Suc k)";
          cases "vis_arrows_caps int_str tai ti t cs rnd' (Suc k)") (auto split: prod.splits)
  qed
qed

lemma loop_cases:
  assumes "map_sum id (\<lambda>(as, k). (map f as, k)) x = map_sum id (\<lambda>(as, k). (map f as, k)) y"
  obtains (err) e where "x = Inl e" "y = Inl e"
    | (ok) as bs k where "x = Inr (as, k)" "y = Inr (bs, k)" "map f as = map f bs"
  using assms by (cases x; cases y) (auto split: prod.splits)

lemma cv_arrows_types_jitter:
  "map_sum id (\<lambda>(as, k). (map blank_jitter as, k)) (cv_arrows_types int_str tai ti ts rnd k)
     = map_sum id (\<lambda>(as, k). (map blank_jitter as, k)) (cv_arrows_types int_str tai ti ts rnd' k)"
proof (induction ts arbitrary: k)
  case Nil
  show ?case by simp
next
  case (Cons t ts)
  show ?case
  proof (cases "map_of ti t")
    case None
    then show ?thesis by simp
  next
    case (Some info)
    from cv_arrows_caps_jitter [of int_str tai ti t "caps info" rnd k rnd'] show ?thesis
    proof (cases rule: loop_cases)
      case (err e)
      with Some show ?thesis by simp
    next
      case (ok as bs k')
      from Cons.IH [of k'] show ?thesis
      proof (cases rule: loop_cases)
        case (err e)
        with Some ok show ?thesis by simp
      next
        case (ok cs ds k'')
        with Some \<open>cv_arrows_caps int_str tai ti t (caps info) rnd k = Inr (as, k')\<close>
          \<open>cv_arrows_caps int_str tai ti t (caps info) rnd' k = Inr (bs, k')\<close>
          \<open>map blank_jitter as = map blank_jitter bs\<close>
        show ?thesis by simp
      qed
    qed
  qed
qed

lemma vis_arrows_types_jitter:
  "map_sum id (\<lambda>(as, k). (map blank_jitter as, k)) (vis_arrows_types int_str tai ti ts rnd k)
     = map_sum id (\<lambda>(as, k). (map blank_jitter as, k)) (vis_arrows_types int_str tai ti ts rnd' k)"
proof (induction ts arbitrary: k)
  case Nil
  show ?case by simp
next
  case (Cons t ts)
  show ?case
  proof (cases "map_of ti t")
    case None
    then show ?thesis by simp
  next
    case (Some info)
    from vis_arrows_caps_jitter [of int_str tai ti t "vcaps info" rnd k rnd'] show ?thesis
    proof (cases rule: loop_cases)
      case (err e)
      with Some show ?thesis by simp
    next
      case (ok as bs k')
      from Cons.IH [of k'] show ?thesis
      proof (cases rule: loop_cases)
        case (err e)
        with Some ok show ?thesis by simp
      next
        case (ok cs ds k'')
        with Some \<open>vis_arrows_caps int_str tai ti t (vcaps info) rnd k = Inr (as, k')\<close>
          \<open>vis_arrows_caps int_str tai ti t (vcaps info) rnd' k = Inr (bs, k')\<close>
          \<open>map blank_jitter as = map blank_jitter bs\<close>
        show ?thesis by simp
      qed
    qed
  qed
qed

lemma cv_main_jitter:
  "map_sum id cv_stable (cv_main int_str pos rnd data) = map_sum id cv_stable (cv_main int_str pos rnd' data)"
proof (cases "capabilities int_str data")
  case (Inl e)
  then show ?thesis by (simp add: cv_main_def)
next
  case (Inr cps)
  from cv_arrows_types_jitter
    [of int_str "cv_type_axes_info pos cps" "cv_type_info cps" "cv_types cps" rnd 0 rnd']
  show ?thesis
  proof (cases rule: loop_cases)
    case (err e)
    with Inr show ?thesis by (simp add: cv_main_def Let_def)
  next
    case (ok as bs k)
    with Inr show ?thesis by (simp add: cv_main_def cv_stable_def Let_def)
  qed
qed

lemma vis_main_jitter:
  "map_sum id vis_stable (vis_main int_str pos rnd data) = map_sum id vis_stable (vis_main int_str pos rnd' data)"
proof (cases "vis_caps data")
  case (Inl e)
  then show ?thesis by (simp add: vis_main_def)
next
  case (Inr cps)
  from vis_arrows_types_jitter
    [of int_str "vis_type_axes_info pos cps" "vis_type_info cps" "vis_types cps" rnd 0 rnd']
  show ?thesis
  proof (cases rule: loop_cases)
    case (err e)
    with Inr show ?thesis by (simp add: vis_main_def)
  next
    case (ok as bs k)
    with Inr show ?thesis by (simp add: vis_main_def vis_stable_def Let_def)
  qed
qed

lemma blank_jitter_sel [simp]:
  "src_type (blank_jitter a) = src_type a"
  "tgt_type (blank_jitter a) = tgt_type a"
  "src_pt (blank_jitter a) = src_pt a"
  "fst (tgt_pt (blank_jitter a)) = fst (tgt_pt a)"
  "style (blank_jitter a) = style a"
  by (simp_all add: blank_jitter_def)

lemma blank_jitter_maps:
  assumes "map blank_jitter as = map blank_jitter bs"
  shows "map src_type as = map src_type bs \<and> map tgt_type as = map tgt_type bs
     \<and> map src_pt as = map src_pt bs
     \<and> map (\<lambda>a. fst (tgt_pt a)) as = map (\<lambda>a. fst (tgt_pt a)) bs
     \<and> map style as = map style bs"
proof -
  have "map g (map blank_jitter as) = map g (map blank_jitter bs)" for g :: "arrow \<Rightarrow> 'x"
    by (simp only: assms)
  from this [of src_type] this [of tgt_type] this [of src_pt] this [of "\<lambda>a. fst (tgt_pt a)"]
    this [of style]
  show ?thesis by (simp add: comp_def)
qed

lemma cv_stable_fields:
  assumes "cv_stable f = cv_stable f'"
  shows "fig_types f = fig_types f' \<and> fig_grid f = fig_grid f' \<and> fig_axes f = fig_axes f'
     \<and> fig_info f = fig_info f' \<and> fig_rows f = fig_rows f' \<and> fig_empty f = fig_empty f'
     \<and> map blank_jitter (fig_arrows f) = map blank_jitter (fig_arrows f')"
proof -
  have "h (cv_stable f) = h (cv_stable f')" for h :: "cv_figure \<Rightarrow> 'x"
    by (simp only: assms)
  from this [of fig_types] this [of fig_grid] this [of fig_axes] this [of fig_info]
    this [of fig_rows] this [of fig_empty] this [of fig_arrows]
  show ?thesis by (simp add: cv_stable_def)
qed

lemma cv_arrows_caps_target_y:
  "cv_arrows_caps int_str tai ti t cs rnd k = Inr (as, k') \<Longrightarrow>
     \<forall>arr\<in>set as. \<exists>a j. snd (tgt_pt arr) = of_int a + rnd j"
proof (induction cs arbitrary: k as k')
  case Nil
  then show ?case by simp
next
  case (Cons cap cs)
  show ?case
  proof (cases "cv_arrow int_str tai ti t cap (rnd k)")
    case (Inl e)
    with Cons.prems show ?thesis by simp
  next
    case (Inr r)
    show ?thesis
    proof (cases r)
      case None
      with Inr Cons.prems Cons.IH [of k as k'] show ?thesis by simp
    next
      case (Some arr)
      with Inr Cons.prems obtain bs where
        rest: "cv_arrows_caps int_str tai ti t cs rnd (Suc k) = Inr (bs, k')" and as: "as = arr # bs"
        by (auto split: sum.splits)
      from cv_arrow_SomeD [of int_str tai ti t cap "rnd k" arr] Inr Some
      have "\<exists>a j. snd (tgt_pt arr) = of_int a + rnd j" by blast
      with Cons.IH [OF rest] as show ?thesis by simp
    qed
  qed
qed

lemma cv_arrows_types_target_y:
  "cv_arrows_types int_str tai ti ts rnd k = Inr (as, k') \<Longrightarrow>
     \<forall>arr\<in>set as. \<exists>a j. snd (tgt_pt arr) = of_int a + rnd j"
proof (induction ts arbitrary: k as k')
  case Nil
  then show ?case by simp
next
  case (Cons t ts)
  show ?case
  proof (cases "map_of ti t")
    case None
    with Cons.prems show ?thesis by simp
  next
    case (Some info)
    show ?thesis
    proof (cases "cv_arrows_caps int_str tai ti t (caps info) rnd k")
      case (Inl e)
      with Some Cons.prems show ?thesis by simp
    next
      case (Inr p)
      obtain bs k1 where p: "p = (bs, k1)" by (cases p)
      show ?thesis
      proof (cases "cv_arrows_types int_str tai ti ts rnd k1")
        case (Inl e)
        with Some Inr p Cons.prems show ?thesis by simp
      next
        case r: (Inr q)
        obtain cs k2 where q: "q = (cs, k2)" by (cases q)
        from Some Inr p r q Cons.prems have as: "as = bs @ cs" and k2: "k2 = k'" by simp_all
        from Inr p have c: "cv_arrows_caps int_str tai ti t (caps info) rnd k = Inr (bs, k1)" by simp
        from r q k2 have r': "cv_arrows_types int_str tai ti ts rnd k1 = Inr (cs, k')" by simp
        from cv_arrows_caps_target_y [OF c] Cons.IH [OF r'] as show ?thesis by auto
      qed
    qed
  qed
qed

lemma cv_main_target_y:
  assumes "cv_main int_str pos rnd data = Inr f"
  shows "\<forall>arr\<in>set (fig_arrows f). \<exists>a j. snd (tgt_pt arr) = of_int a + rnd j"
proof -
  from assms obtain cps as k where
    "cv_arrows_types int_str (cv_type_axes_info pos cps) (cv_type_info cps) (cv_types cps) rnd 0 = Inr (as, k)"
    and "fig_arrows f = as"
    by (auto simp: cv_main_def Let_def split: sum.splits if_splits)
  with cv_arrows_types_target_y show ?thesis by blast
qed

lemma map_sum_InrD: "map_sum id g x = Inr y \<Longrightarrow> \<exists>f. x = Inr f \<and> g f = y"
  by (cases x) auto

text \<open>
  C9. Two runs on the same input (and the same placement of the axes) can differ only
  in the random numbers.  They end alike (the same error, or a figure each); the two
  figures have the same types, grid, type-to-axes assignment, panel data, rows and empty
  blocks, and arrow by arrow the same source and target type, source point, target x and
  style: only the target y, address plus random number, can differ, and it lies in
  \<open>[address + 0.1, address + 0.6)\<close> when the random numbers lie in \<open>[0.1, 0.6)\<close>.
\<close>

theorem rerun_determinism:
  "map_sum id cv_stable (cv_main int_str pos rnd data) = map_sum id cv_stable (cv_main int_str pos rnd' data)
   \<and> map_sum id vis_stable (vis_main int_str pos rnd data) = map_sum id vis_stable (vis_main int_str pos rnd' data)
   \<and> (cv_main int_str pos rnd data = Inr f \<and> cv_main int_str pos rnd' data = Inr f' \<longrightarrow>
        fig_types f = fig_types f' \<and> fig_grid f = fig_grid f' \<and> fig_axes f = fig_axes f'
        \<and> fig_info f = fig_info f' \<and> fig_rows f = fig_rows f' \<and> fig_empty f = fig_empty f'
        \<and> map src_type (fig_arrows f) = map src_type (fig_arrows f')
        \<and> map tgt_type (fig_arrows f) = map tgt_type (fig_arrows f')
        \<and> map src_pt (fig_arrows f) = map src_pt (fig_arrows f')
        \<and> map (\<lambda>a. fst (tgt_pt a)) (fig_arrows f) = map (\<lambda>a. fst (tgt_pt a)) (fig_arrows f')
        \<and> map style (fig_arrows f) = map style (fig_arrows f'))
   \<and> ((\<forall>k. 1 / 10 \<le> rnd k \<and> rnd k < 6 / 10) \<and> cv_main int_str pos rnd data = Inr f \<longrightarrow>
        (\<forall>arr\<in>set (fig_arrows f).
           \<exists>a::int. of_int a + 1 / 10 \<le> snd (tgt_pt arr) \<and> snd (tgt_pt arr) < of_int a + 6 / 10))"
proof -
  note 1 = cv_main_jitter [of int_str pos rnd data rnd']
  note 2 = vis_main_jitter [of int_str pos rnd data rnd']
  have 3: "fig_types f = fig_types f' \<and> fig_grid f = fig_grid f' \<and> fig_axes f = fig_axes f'
        \<and> fig_info f = fig_info f' \<and> fig_rows f = fig_rows f' \<and> fig_empty f = fig_empty f'
        \<and> map src_type (fig_arrows f) = map src_type (fig_arrows f')
        \<and> map tgt_type (fig_arrows f) = map tgt_type (fig_arrows f')
        \<and> map src_pt (fig_arrows f) = map src_pt (fig_arrows f')
        \<and> map (\<lambda>a. fst (tgt_pt a)) (fig_arrows f) = map (\<lambda>a. fst (tgt_pt a)) (fig_arrows f')
        \<and> map style (fig_arrows f) = map style (fig_arrows f')"
    if "cv_main int_str pos rnd data = Inr f \<and> cv_main int_str pos rnd' data = Inr f'"
  proof -
    from 1 that have "cv_stable f = cv_stable f'" by simp
    from cv_stable_fields [OF this] blank_jitter_maps [of "fig_arrows f" "fig_arrows f'"]
    show ?thesis by blast
  qed
  have 4: "\<forall>arr\<in>set (fig_arrows f).
           \<exists>a::int. of_int a + 1 / 10 \<le> snd (tgt_pt arr) \<and> snd (tgt_pt arr) < of_int a + 6 / 10"
    if h: "(\<forall>k. 1 / 10 \<le> rnd k \<and> rnd k < 6 / 10) \<and> cv_main int_str pos rnd data = Inr f"
  proof
    fix arr assume "arr \<in> set (fig_arrows f)"
    with cv_main_target_y [of int_str pos rnd data f] h
    obtain a j where y: "snd (tgt_pt arr) = of_int a + rnd j" by blast
    from h have "1 / 10 \<le> rnd j \<and> rnd j < 6 / 10" by blast
    with y have "of_int a + 1 / 10 \<le> snd (tgt_pt arr) \<and> snd (tgt_pt arr) < of_int a + 6 / 10"
      by simp
    then show "\<exists>a::int. of_int a + 1 / 10 \<le> snd (tgt_pt arr) \<and> snd (tgt_pt arr) < of_int a + 6 / 10"
      by blast
  qed
  from 1 2 3 4 show ?thesis by blast
qed

theorem rerun_determinism_witness:
  "\<exists>f f'. cv_main decimal (\<lambda>i. (of_nat i, of_nat i + 1)) (\<lambda>k. 1 / 10)
            [\<lparr>Type = Some ''A'', Reference = Some (JInt 5), Address = Some (JStr ''0''), Labels = Map.empty\<rparr>,
             \<lparr>Type = Some ''B'', Reference = None, Address = None, Labels = Map.empty\<rparr>] = Inr f
     \<and> cv_main decimal (\<lambda>i. (of_nat i, of_nat i + 1)) (\<lambda>k. 1 / 2)
            [\<lparr>Type = Some ''A'', Reference = Some (JInt 5), Address = Some (JStr ''0''), Labels = Map.empty\<rparr>,
             \<lparr>Type = Some ''B'', Reference = None, Address = None, Labels = Map.empty\<rparr>] = Inr f'
     \<and> fig_axes f = fig_axes f' \<and> fig_empty f = fig_empty f'
     \<and> map tgt_type (fig_arrows f) = [''B''] \<and> map tgt_type (fig_arrows f') = [''B'']
     \<and> map src_pt (fig_arrows f) = map src_pt (fig_arrows f')
     \<and> map (\<lambda>a. fst (tgt_pt a)) (fig_arrows f) = map (\<lambda>a. fst (tgt_pt a)) (fig_arrows f')"
proof -
  let ?pos = "\<lambda>i::nat. (of_nat i :: rat, of_nat i + 1 :: rat)"
  let ?data = "[\<lparr>Type = Some ''A'', Reference = Some (JInt 5), Address = Some (JStr ''0''), Labels = Map.empty\<rparr>,
                \<lparr>Type = Some ''B'', Reference = None, Address = None, Labels = Map.empty\<rparr>]"
  from map_sum_InrD [OF example_main [of ?pos "\<lambda>k. 1 / 10"]]
  obtain f where f: "cv_main decimal ?pos (\<lambda>k. 1 / 10) ?data = Inr f"
    and t: "map tgt_type (fig_arrows f) = [''B'']" by auto
  from map_sum_InrD [OF example_main [of ?pos "\<lambda>k. 1 / 2"]]
  obtain f' where f': "cv_main decimal ?pos (\<lambda>k. 1 / 2) ?data = Inr f'"
    and t': "map tgt_type (fig_arrows f') = [''B'']" by auto
  from rerun_determinism [of decimal ?pos "\<lambda>k. 1 / 10" ?data "\<lambda>k. 1 / 2" f f'] f f'
  have c: "fig_axes f = fig_axes f' \<and> fig_empty f = fig_empty f'
     \<and> map src_pt (fig_arrows f) = map src_pt (fig_arrows f')
     \<and> map (\<lambda>a. fst (tgt_pt a)) (fig_arrows f) = map (\<lambda>a. fst (tgt_pt a)) (fig_arrows f')"
    by simp
  with f f' t t' show ?thesis
    by (intro exI [of _ f] exI [of _ f']) simp
qed

section \<open>A target type that is the empty string\<close>

text \<open>
  In CapabilityClassVis.py a record without \<^verbatim>\<open>Type\<close> is grouped under the empty string.
  The resolver returns that type like any other, but the arrow loop tests its result with
  \<^verbatim>\<open>if not target_type\<close>, which also holds for the empty string: no arrow is drawn into
  that panel.  CapabilityVisualization.py tests \<^verbatim>\<open>target_type is None\<close>.
\<close>

lemma cv_arrow_empty_type_skipped:
  assumes "reference cap = Some r" and "map_of ti t = Some info"
    and "getAddress int_str cap = Inr (Some a)" and "resolve_target tai a = Some []"
  shows "cv_arrow int_str tai ti t cap u = Inr None"
  using assms by (simp add: cv_arrow_def Let_def)

lemma cv_arrow_empty_type_example:
  "resolve_target [([], \<lparr>ai_min = 0, ai_max = 10, center_x = 1 / 2\<rparr>)] 5 = Some []
   \<and> cv_arrow decimal [([], \<lparr>ai_min = 0, ai_max = 10, center_x = 1 / 2\<rparr>)]
        [([], cv_info_of [\<lparr>address = JInt 5, reference = Some 10, type = []\<rparr>,
                           \<lparr>address = JNull, reference = Some 0, type = []\<rparr>])]
        [] \<lparr>address = JInt 5, reference = Some 10, type = []\<rparr> u = Inr None"
  by (simp add: cv_arrow_def resolve_target_def covers_def getAddress_def to_int_def Let_def)

section \<open>Errors and malformed fields\<close>

text \<open>The turn of a record whose address is rejected, and the loop around it.\<close>

lemma getAddress_rejected:
  "address cap = JNull \<or> (\<exists>s. address cap = JStr s \<and> int_str s = None) \<Longrightarrow>
     getAddress int_str cap = Inr None"
  by (auto simp: getAddress_def to_int_def)

lemma cv_arrow_bad_address:
  "getAddress int_str cap = Inr None \<Longrightarrow> map_of ti t = Some info \<Longrightarrow>
     cv_arrow int_str tai ti t cap u = Inr None"
  by (simp add: cv_arrow_def Let_def split: option.splits)

lemma cv_arrows_caps_skip:
  assumes "\<forall>u. cv_arrow int_str tai ti t cap u = Inr None"
  shows "cv_arrows_caps int_str tai ti t (xs @ cap # ys) rnd k
           = cv_arrows_caps int_str tai ti t (xs @ ys) rnd k"
proof (induction xs arbitrary: k)
  case Nil
  from assms show ?case by simp
next
  case (Cons x xs)
  then show ?case by (simp split: sum.splits option.splits)
qed

lemma cv_drawn_rows_ys_list: "map snd (cv_drawn_rows (cv_info_of g)) = List.map_filter reference g"
  unfolding cv_drawn_rows_eq
  by (induction g) (auto simp: List.map_filter_simps split: option.splits)

lemma vis_address_val_rejected:
  "int_str (py_str a) = None \<Longrightarrow> vis_address_val int_str a = Inr None"
  by (simp add: vis_address_val_def)

lemma vis_arrow_bad_address:
  "vis_address_val int_str (v_address cap) = Inr None \<Longrightarrow> map_of ti t = Some info \<Longrightarrow>
     dict_index (vy_positions info) (v_reference cap) = Inr y \<Longrightarrow>
     vis_arrow int_str tai ti t cap u = Inr None"
  by (simp add: vis_arrow_def)

lemma vis_arrows_caps_skip:
  assumes "\<forall>u. vis_arrow int_str tai ti t cap u = Inr None"
  shows "vis_arrows_caps int_str tai ti t (xs @ cap # ys) rnd k
           = vis_arrows_caps int_str tai ti t (xs @ ys) rnd k"
proof (induction xs arbitrary: k)
  case Nil
  from assms show ?case by simp
next
  case (Cons x xs)
  then show ?case by (simp split: sum.splits option.splits)
qed

text \<open>
  What CapabilityVisualization.py raises while it groups and sorts the records: the
  grouping loop stops at the first record without \<^verbatim>\<open>Type\<close>; when every record has one,
  the groups hold all the records, and the first group with a member without
  \<^verbatim>\<open>Reference\<close> stops the sort.
\<close>

lemma vis_group_by_type_no_type:
  "r \<in> set data \<Longrightarrow> Type r = None \<Longrightarrow> vis_group_by_type data d = Inl (KeyError ''Type'')"
proof (induction data arbitrary: d)
  case Nil
  then show ?case by simp
next
  case (Cons x data)
  then show ?case by (cases "Type x") auto
qed

lemma setdefault_append_members:
  "set (concat (map snd (setdefault_append k v d))) = insert v (set (concat (map snd d)))"
proof (induction d)
  case Nil
  show ?case by simp
next
  case (Cons e d)
  obtain k' vs where e: "e = (k', vs)" by (cases e)
  show ?case
  proof (cases "k = k'")
    case True
    with e show ?thesis by simp
  next
    case False
    have "set (concat (map snd (setdefault_append k v (e # d))))
            = set vs \<union> set (concat (map snd (setdefault_append k v d)))"
      using e False by simp
    also have "\<dots> = set vs \<union> insert v (set (concat (map snd d)))"
      by (simp only: Cons.IH)
    also have "\<dots> = insert v (set (concat (map snd (e # d))))"
      using e by simp
    finally show ?thesis .
  qed
qed

lemma vis_group_by_type_members:
  "\<forall>r\<in>set data. Type r \<noteq> None \<Longrightarrow>
     \<exists>d'. vis_group_by_type data d = Inr d'
       \<and> set (concat (map snd d')) = set (concat (map snd d)) \<union> set data"
proof (induction data arbitrary: d)
  case Nil
  then show ?case by simp
next
  case (Cons x data)
  from Cons.prems obtain ty where t: "Type x = Some ty" by auto
  from Cons.prems have "\<forall>r\<in>set data. Type r \<noteq> None" by simp
  from Cons.IH [OF this, of "setdefault_append ty x d"] obtain d' where
    "vis_group_by_type data (setdefault_append ty x d) = Inr d'"
    "set (concat (map snd d')) = set (concat (map snd (setdefault_append ty x d))) \<union> set data"
    by blast
  with t setdefault_append_members [of ty x d] show ?case by (simp only: vis_group_by_type.simps option.case) auto
qed

lemma map_filter_numbers:
  "\<forall>cap\<in>set g. \<exists>i. Reference cap = Some (JInt i) \<Longrightarrow>
     list_all is_number (List.map_filter Reference g)"
  by (induction g) (auto simp: List.map_filter_simps)

lemma vis_sort_error_cases:
  assumes "\<forall>cap\<in>set g. Reference cap = None \<or> (\<exists>i. Reference cap = Some (JInt i))"
  shows "vis_sort_error g
           = (if \<exists>cap\<in>set g. Reference cap = None then Some (KeyError ''Reference'') else None)"
proof (cases "\<exists>cap\<in>set g. Reference cap = None")
  case True
  then show ?thesis by (simp add: vis_sort_error_def list_ex_iff)
next
  case False
  with assms have "\<forall>cap\<in>set g. \<exists>i. Reference cap = Some (JInt i)" by blast
  from map_filter_numbers [OF this] False show ?thesis
    by (simp add: vis_sort_error_def list_ex_iff Let_def)
qed

lemma vis_sort_groups_no_reference:
  assumes "\<forall>e\<in>set d. \<forall>cap\<in>set (snd e). Reference cap = None \<or> (\<exists>i. Reference cap = Some (JInt i))"
    and "\<exists>e\<in>set d. \<exists>cap\<in>set (snd e). Reference cap = None"
  shows "vis_sort_groups d = Some (KeyError ''Reference'')"
  using assms
proof (induction d)
  case Nil
  then show ?case by simp
next
  case (Cons e d)
  obtain ty g where e: "e = (ty, g)" by (cases e)
  from Cons.prems(1) e
  have g: "\<forall>cap\<in>set g. Reference cap = None \<or> (\<exists>i. Reference cap = Some (JInt i))" by simp
  show ?case
  proof (cases "\<exists>cap\<in>set g. Reference cap = None")
    case True
    with e vis_sort_error_cases [OF g] show ?thesis by simp
  next
    case False
    with Cons.prems e have "\<forall>e\<in>set d. \<forall>cap\<in>set (snd e). Reference cap = None \<or> (\<exists>i. Reference cap = Some (JInt i))"
      and "\<exists>e\<in>set d. \<exists>cap\<in>set (snd e). Reference cap = None" by auto
    from Cons.IH [OF this] e False vis_sort_error_cases [OF g] show ?thesis by simp
  qed
qed

lemma vis_read_error_no_type:
  "r \<in> set data \<Longrightarrow> Type r = None \<Longrightarrow> vis_read_error data = Some (KeyError ''Type'')"
  by (simp add: vis_read_error_def vis_group_by_type_no_type)

lemma vis_read_error_no_reference:
  assumes "\<forall>r\<in>set data. Type r \<noteq> None \<and> (Reference r = None \<or> (\<exists>i. Reference r = Some (JInt i)))"
    and "\<exists>r\<in>set data. Reference r = None"
  shows "vis_read_error data = Some (KeyError ''Reference'')"
proof -
  from assms(1) have "\<forall>r\<in>set data. Type r \<noteq> None" by blast
  from vis_group_by_type_members [OF this, of "[]"] obtain d where
    d: "vis_group_by_type data [] = Inr d" and m: "set (concat (map snd d)) = set data" by auto
  from m have m': "(\<Union>e\<in>set d. set (snd e)) = set data" by simp
  from m' assms(1)
  have 1: "\<forall>e\<in>set d. \<forall>cap\<in>set (snd e). Reference cap = None \<or> (\<exists>i. Reference cap = Some (JInt i))"
    by blast
  from m' assms(2) have 2: "\<exists>e\<in>set d. \<exists>cap\<in>set (snd e). Reference cap = None" by blast
  from vis_sort_groups_no_reference [OF 1 2] d show ?thesis by (simp add: vis_read_error_def)
qed

lemma vis_main_no_type:
  "r \<in> set data \<Longrightarrow> Type r = None \<Longrightarrow> vis_main int_str pos rnd data = Inl (KeyError ''Type'')"
  by (simp add: vis_main_def vis_caps_def vis_read_error_no_type)

lemma vis_main_no_reference:
  assumes "\<forall>r\<in>set data. Type r \<noteq> None \<and> (Reference r = None \<or> (\<exists>i. Reference r = Some (JInt i)))"
    and "\<exists>r\<in>set data. Reference r = None"
  shows "vis_main int_str pos rnd data = Inl (KeyError ''Reference'')"
  using vis_read_error_no_reference [OF assms] by (simp add: vis_main_def vis_caps_def)

lemma decimal_rejects: "decimal ''x'' = None" "decimal ''None'' = None"
  by (simp_all add: decimal_def strip_def is_space_def digit_val_def)

text \<open>
  C8 as stated fails for CapabilityVisualization.py: a record without \<^verbatim>\<open>Reference\<close> ends
  the run with \<^verbatim>\<open>KeyError('Reference')\<close>, raised by the key function of \<^verbatim>\<open>sorted\<close>; the
  other record, complete but for its non-numeric address, is never drawn.
\<close>

theorem strict_script_counterexample:
  "vis_main decimal (\<lambda>i. (0, 1)) (\<lambda>k. 0)
     [\<lparr>Type = Some ''A'', Reference = Some (JInt 1), Address = Some (JStr ''x''),
       Labels = map_of [(''Tag'', JInt 1), (''Permissions'', JStr ''rw''), (''Executive'', JInt 0),
                        (''Global'', JInt 1), (''Object Type'', JInt 0), (''Bounds'', JStr ''0-8'')]\<rparr>,
      \<lparr>Type = Some ''A'', Reference = None, Address = Some (JInt 0),
       Labels = map_of [(''Tag'', JInt 1), (''Permissions'', JStr ''rw''), (''Executive'', JInt 0),
                        (''Global'', JInt 1), (''Object Type'', JInt 0), (''Bounds'', JStr ''0-8'')]\<rparr>]
   = Inl (KeyError ''Reference'')"
  by (simp add: vis_main_def vis_caps_def vis_read_error_def vis_sort_error_def)

text \<open>
  A complete record with the address \<^verbatim>\<open>"x"\<close>, alone in the input: both scripts lay out
  one panel and draw no arrow.
\<close>

lemma vis_example_read:
  "vis_caps
     [\<lparr>Type = Some ''A'', Reference = Some (JInt 5), Address = Some (JStr ''x''),
       Labels = map_of [(''Tag'', JInt 1), (''Permissions'', JStr ''rw''), (''Executive'', JInt 0),
                        (''Global'', JInt 1), (''Object Type'', JInt 0), (''Bounds'', JStr ''0-8'')]\<rparr>]
   = Inr [\<lparr>v_address = JStr ''x'', v_reference = 5, v_type = ''A''\<rparr>]"
  by (simp add: vis_caps_def vis_read_error_def vis_sort_error_def vis_height_error_def
      List.map_filter_simps expected_keys_def index_key_def sorted_reverse_def lookup_caps_def
      vis_cap_def)

lemma vis_example_main:
  "map_sum id (\<lambda>f. (vfig_types f, vfig_grid f, vfig_empty f, vfig_arrows f))
     (vis_main decimal (\<lambda>i. (0, 1)) (\<lambda>k. 0)
       [\<lparr>Type = Some ''A'', Reference = Some (JInt 5), Address = Some (JStr ''x''),
         Labels = map_of [(''Tag'', JInt 1), (''Permissions'', JStr ''rw''), (''Executive'', JInt 0),
                          (''Global'', JInt 1), (''Object Type'', JInt 0), (''Bounds'', JStr ''0-8'')]\<rparr>])
   = Inr ([''A''], (1, 1), [(''A'', [])], [])"
  unfolding vis_main_def vis_example_read
  by (simp add: vis_types_def vis_type_caps_def vis_group_def sorted_reverse_def
      vis_type_info_def vis_info_of_def get_reference_range_def lookup_caps_def
      vis_type_axes_info_def vis_arrow_def dict_index_def vis_address_val_def py_str_def
      decimal_rejects vis_grid_def grid_layout_def vis_type_to_axis_def vis_empty_def
      empty_addresses_def Let_def)

lemma cv_example_main:
  "map_sum id (\<lambda>f. (fig_types f, fig_grid f, fig_rows f, fig_empty f, fig_arrows f))
     (cv_main decimal (\<lambda>i. (0, 1)) (\<lambda>k. 0)
       [\<lparr>Type = Some ''A'', Reference = Some (JInt 5), Address = Some (JStr ''x''),
         Labels = Map.empty\<rparr>])
   = Inr ([''A''], (1, 1),
          [(''A'', [(\<lparr>address = JStr ''x'', reference = Some 5, type = ''A''\<rparr>, 5)])],
          [(''A'', [])], [])"
  by (simp add: cv_main_def Capability_def to_int_def cv_types_def cv_type_caps_def cv_group_def
      sorted_reverse_def cv_type_info_def cv_info_of_def get_ref_range_def lookup_caps_def
      cv_type_axes_info_def cv_arrow_def getAddress_def decimal_rejects cv_grid_def
      grid_layout_def cv_type_axes_def cv_empty_def cv_drawn_rows_def dict_get_def
      empty_addresses_def List.map_filter_simps Let_def)

text \<open>
  C8, amended.  An address that \<^verbatim>\<open>int\<close> rejects costs a record its turn of the arrow
  loop and nothing else, in both scripts.  In CapabilityClassVis.py a \<^verbatim>\<open>null\<close> address or a
  string that \<^verbatim>\<open>int\<close> rejects makes \<^verbatim>\<open>getAddress\<close> return \<^verbatim>\<open>None\<close>; the turn then ends in
  \<^verbatim>\<open>continue\<close>, the loop goes on as if the record were not in the list, and the rows drawn
  are the present references.  In CapabilityVisualization.py the same holds for an address
  whose \<^verbatim>\<open>str\<close> is rejected by \<^verbatim>\<open>int\<close>.  Not every error is recovered:
  CapabilityVisualization.py ends with \<^verbatim>\<open>KeyError('Type')\<close> when a record has no
  \<^verbatim>\<open>Type\<close>, and with \<^verbatim>\<open>KeyError('Reference')\<close> when every record has a \<^verbatim>\<open>Type\<close>, every
  \<^verbatim>\<open>Reference\<close> present is an integer and some record has no \<^verbatim>\<open>Reference\<close>.
\<close>

theorem malformed_address_recovery:
  "((address cap = JNull \<or> (\<exists>s. address cap = JStr s \<and> int_str s = None)) \<longrightarrow>
       getAddress int_str cap = Inr None)
   \<and> (getAddress int_str cap = Inr None \<and> map_of ti t = Some info \<longrightarrow>
         cv_arrow int_str tai ti t cap u = Inr None
         \<and> cv_arrows_caps int_str tai ti t (xs @ cap # ys) rnd k
             = cv_arrows_caps int_str tai ti t (xs @ ys) rnd k)
   \<and> map snd (cv_drawn_rows (cv_info_of g)) = List.map_filter reference g
   \<and> (int_str (py_str a) = None \<longrightarrow> vis_address_val int_str a = Inr None)
   \<and> (vis_address_val int_str (v_address vcap) = Inr None \<and> map_of vti t = Some vinfo
        \<and> dict_index (vy_positions vinfo) (v_reference vcap) = Inr y \<longrightarrow>
         vis_arrow int_str tai vti t vcap u = Inr None
         \<and> vis_arrows_caps int_str tai vti t (vxs @ vcap # vys) rnd k
             = vis_arrows_caps int_str tai vti t (vxs @ vys) rnd k)
   \<and> vis_drawn_rows (vy_positions (vis_info_of vg)) vg = Inr (map (\<lambda>c. (c, v_reference c)) vg)
   \<and> (r \<in> set data \<and> Type r = None \<longrightarrow>
         vis_main int_str pos rnd data = Inl (KeyError ''Type''))
   \<and> ((\<forall>r\<in>set data. Type r \<noteq> None
                \<and> (Reference r = None \<or> (\<exists>i. Reference r = Some (JInt i))))
        \<and> (\<exists>r\<in>set data. Reference r = None) \<longrightarrow>
         vis_main int_str pos rnd data = Inl (KeyError ''Reference''))"
proof -
  have 1: "(address cap = JNull \<or> (\<exists>s. address cap = JStr s \<and> int_str s = None)) \<longrightarrow>
       getAddress int_str cap = Inr None"
    using getAddress_rejected [of cap int_str] by blast
  have 2: "getAddress int_str cap = Inr None \<and> map_of ti t = Some info \<longrightarrow>
         cv_arrow int_str tai ti t cap u = Inr None
         \<and> cv_arrows_caps int_str tai ti t (xs @ cap # ys) rnd k
             = cv_arrows_caps int_str tai ti t (xs @ ys) rnd k"
  proof
    assume h: "getAddress int_str cap = Inr None \<and> map_of ti t = Some info"
    then have a: "\<forall>u. cv_arrow int_str tai ti t cap u = Inr None"
      using cv_arrow_bad_address [of int_str cap ti t info tai] by blast
    from a cv_arrows_caps_skip [OF a]
    show "cv_arrow int_str tai ti t cap u = Inr None
         \<and> cv_arrows_caps int_str tai ti t (xs @ cap # ys) rnd k
             = cv_arrows_caps int_str tai ti t (xs @ ys) rnd k"
      by blast
  qed
  note 3 = cv_drawn_rows_ys_list [of g]
  have 4: "int_str (py_str a) = None \<longrightarrow> vis_address_val int_str a = Inr None"
    using vis_address_val_rejected [of int_str a] by blast
  have 5: "vis_address_val int_str (v_address vcap) = Inr None \<and> map_of vti t = Some vinfo
        \<and> dict_index (vy_positions vinfo) (v_reference vcap) = Inr y \<longrightarrow>
         vis_arrow int_str tai vti t vcap u = Inr None
         \<and> vis_arrows_caps int_str tai vti t (vxs @ vcap # vys) rnd k
             = vis_arrows_caps int_str tai vti t (vxs @ vys) rnd k"
  proof
    assume h: "vis_address_val int_str (v_address vcap) = Inr None \<and> map_of vti t = Some vinfo
        \<and> dict_index (vy_positions vinfo) (v_reference vcap) = Inr y"
    then have a: "\<forall>u. vis_arrow int_str tai vti t vcap u = Inr None"
      using vis_arrow_bad_address [of int_str vcap vti t vinfo y tai] by blast
    from a vis_arrows_caps_skip [OF a]
    show "vis_arrow int_str tai vti t vcap u = Inr None
         \<and> vis_arrows_caps int_str tai vti t (vxs @ vcap # vys) rnd k
             = vis_arrows_caps int_str tai vti t (vxs @ vys) rnd k"
      by blast
  qed
  note 6 = vis_drawn_rows_eq [of vg]
  have 7: "r \<in> set data \<and> Type r = None \<longrightarrow>
         vis_main int_str pos rnd data = Inl (KeyError ''Type'')"
    using vis_main_no_type [of r data int_str pos rnd] by blast
  have 8: "(\<forall>r\<in>set data. Type r \<noteq> None
                \<and> (Reference r = None \<or> (\<exists>i. Reference r = Some (JInt i))))
        \<and> (\<exists>r\<in>set data. Reference r = None) \<longrightarrow>
         vis_main int_str pos rnd data = Inl (KeyError ''Reference'')"
    using vis_main_no_reference [of data int_str pos rnd] by blast
  from 1 2 3 4 5 6 7 8 show ?thesis by blast
qed

theorem malformed_address_recovery_witness:
  "getAddress decimal \<lparr>address = JStr ''x'', reference = Some 5, type = ''A''\<rparr> = Inr None
   \<and> cv_arrow decimal [] [(''A'', cv_info_of [\<lparr>address = JStr ''x'', reference = Some 5, type = ''A''\<rparr>])]
        ''A'' \<lparr>address = JStr ''x'', reference = Some 5, type = ''A''\<rparr> 0 = Inr None
   \<and> vis_address_val decimal JNull = Inr None
   \<and> vis_arrow decimal []
        [(''A'', vis_info_of [\<lparr>v_address = JNull, v_reference = 5, v_type = ''A''\<rparr>])]
        ''A'' \<lparr>v_address = JNull, v_reference = 5, v_type = ''A''\<rparr> 0 = Inr None
   \<and> vis_main decimal (\<lambda>i. (0, 1)) (\<lambda>k. 0)
        [\<lparr>Type = None, Reference = Some (JInt 5), Address = Some (JStr ''x''),
          Labels = Map.empty\<rparr>] = Inl (KeyError ''Type'')
   \<and> vis_main decimal (\<lambda>i. (0, 1)) (\<lambda>k. 0)
        [\<lparr>Type = Some ''A'', Reference = Some (JInt 5), Address = Some (JStr ''x''),
          Labels = Map.empty\<rparr>,
         \<lparr>Type = Some ''B'', Reference = None, Address = Some (JStr ''x''),
          Labels = Map.empty\<rparr>] = Inl (KeyError ''Reference'')"
proof -
  let ?cap = "\<lparr>address = JStr ''x'', reference = Some 5, type = ''A''\<rparr>"
  let ?ti = "[(''A'', cv_info_of [?cap])]"
  let ?vcap = "\<lparr>v_address = JNull, v_reference = 5, v_type = ''A''\<rparr>"
  let ?vti = "[(''A'', vis_info_of [?vcap])]"
  let ?r1 = "\<lparr>Type = None, Reference = Some (JInt 5), Address = Some (JStr ''x''),
          Labels = Map.empty\<rparr>"
  let ?r2 = "\<lparr>Type = Some ''A'', Reference = Some (JInt 5), Address = Some (JStr ''x''),
          Labels = Map.empty\<rparr>"
  let ?r3 = "\<lparr>Type = Some ''B'', Reference = None, Address = Some (JStr ''x''),
          Labels = Map.empty\<rparr>"
  have s: "decimal ''x'' = None" "decimal (py_str JNull) = None"
    by (simp_all add: py_str_def decimal_rejects)
  have y: "dict_index (vy_positions (vis_info_of [?vcap])) (v_reference ?vcap) = Inr 5"
    by (simp add: vis_info_of_def get_reference_range_def dict_index_def Let_def)
  note a = malformed_address_recovery [of ?cap decimal ?ti "''A''" "cv_info_of [?cap]" "[]" 0
      "[]" "[]" "\<lambda>k. 0" 0 "[]" JNull ?vcap ?vti "vis_info_of [?vcap]" 5 "[]" "[]" "[]"
      ?r1 "[?r1]" "\<lambda>i. (0, 1)"]
  note b = malformed_address_recovery [of ?cap decimal ?ti "''A''" "cv_info_of [?cap]" "[]" 0
      "[]" "[]" "\<lambda>k. 0" 0 "[]" JNull ?vcap ?vti "vis_info_of [?vcap]" 5 "[]" "[]" "[]"
      ?r3 "[?r2, ?r3]" "\<lambda>i. (0, 1)"]
  from a s have 1: "getAddress decimal ?cap = Inr None" by simp
  from a 1 have 2: "cv_arrow decimal [] ?ti ''A'' ?cap 0 = Inr None" by simp
  from a s have 3: "vis_address_val decimal JNull = Inr None" by simp
  from a 3 y have 4: "vis_arrow decimal [] ?vti ''A'' ?vcap 0 = Inr None" by simp
  from a have 5: "vis_main decimal (\<lambda>i. (0, 1)) (\<lambda>k. 0) [?r1] = Inl (KeyError ''Type'')" by simp
  from b have 6: "vis_main decimal (\<lambda>i. (0, 1)) (\<lambda>k. 0) [?r2, ?r3] = Inl (KeyError ''Reference'')"
    by simp
  from 1 2 3 4 5 6 show ?thesis by blast
qed

end
